theory Spec2Isabelle
  imports Complex_Main
begin

section \<open>Python values handled by the provider client\<close>

text \<open>
  \<^verbatim>\<open>weather_api.py\<close> works on what \<^verbatim>\<open>response.json()\<close> returns: the Python image of a JSON
  document. A \<^verbatim>\<open>str\<close> is a list of characters, one element per character of the Python
  string; a \<^verbatim>\<open>dict\<close> is the list of its items (JSON keys are strings); a float is
  the real number it denotes (the non-finite floats are left out). The last constructor
  is the one non-JSON value the client builds: \<^verbatim>\<open>datetime.fromtimestamp(x)\<close>.
\<close>

datatype py =
    PNone
  | PBool bool
  | PInt int
  | PFloat real
  | PStr string
  | PList "py list"
  | PDict "(string \<times> py) list"
  | PDatetime real

text \<open>The exceptions the bodies of the four client functions can raise. All of them are
  subclasses of Python's \<^verbatim>\<open>Exception\<close>.\<close>

datatype exn =
    TransportError
  | HTTPStatusError nat
  | JSONDecodeError
  | KeyError
  | IndexError
  | TypeError
  | AttributeError
  | OverflowError

definition then_try :: "exn + 'a \<Rightarrow> ('a \<Rightarrow> exn + 'b) \<Rightarrow> exn + 'b" where
  "then_try r f = (case r of Inl e \<Rightarrow> Inl e | Inr v \<Rightarrow> f v)"

text \<open>\<^verbatim>\<open>x["k"]\<close> with a string literal as the subscript.\<close>

fun get_key :: "py \<Rightarrow> string \<Rightarrow> exn + py" where
  "get_key (PDict kvs) k = (case map_of kvs k of None \<Rightarrow> Inl KeyError | Some v \<Rightarrow> Inr v)"
| "get_key _ k = Inl TypeError"

text \<open>\<^verbatim>\<open>x[0]\<close>. A dictionary decoded from JSON has string keys only, so the integer key
  is missing from it.\<close>

fun get_first :: "py \<Rightarrow> exn + py" where
  "get_first (PList xs) = (case xs of [] \<Rightarrow> Inl IndexError | x # _ \<Rightarrow> Inr x)"
| "get_first (PStr s) = (case s of [] \<Rightarrow> Inl IndexError | c # _ \<Rightarrow> Inr (PStr [c]))"
| "get_first (PDict kvs) = Inl KeyError"
| "get_first _ = Inl TypeError"

text \<open>\<^verbatim>\<open>x.get("k", default)\<close>: only a \<^verbatim>\<open>dict\<close> has the method.\<close>

fun dict_get :: "py \<Rightarrow> string \<Rightarrow> py \<Rightarrow> exn + py" where
  "dict_get (PDict kvs) k d = Inr (case map_of kvs k of None \<Rightarrow> d | Some v \<Rightarrow> v)"
| "dict_get _ k d = Inl AttributeError"

text \<open>The items a \<^verbatim>\<open>for item in x\<close> loop visits.\<close>

fun iterate :: "py \<Rightarrow> exn + py list" where
  "iterate (PList xs) = Inr xs"
| "iterate (PDict kvs) = Inr (map (\<lambda>kv. PStr (fst kv)) kvs)"
| "iterate (PStr s) = Inr (map (\<lambda>c. PStr [c]) s)"
| "iterate _ = Inl TypeError"

text \<open>Truth value of \<^verbatim>\<open>if x:\<close>.\<close>

fun truthy :: "py \<Rightarrow> bool" where
  "truthy PNone = False"
| "truthy (PBool b) = b"
| "truthy (PInt n) = (n \<noteq> 0)"
| "truthy (PFloat x) = (x \<noteq> 0)"
| "truthy (PStr s) = (s \<noteq> [])"
| "truthy (PList xs) = (xs \<noteq> [])"
| "truthy (PDict kvs) = (kvs \<noteq> [])"
| "truthy (PDatetime t) = True"

text \<open>The loop \<^verbatim>\<open>for item in xs: results.append(f(item))\<close>: the first exception leaves
  the loop and discards what was appended.\<close>

fun append_each :: "('a \<Rightarrow> exn + 'b) \<Rightarrow> 'a list \<Rightarrow> exn + 'b list" where
  "append_each f [] = Inr []"
| "append_each f (x # xs) =
     (case f x of
        Inl e \<Rightarrow> Inl e
      | Inr y \<Rightarrow> (case append_each f xs of Inl e \<Rightarrow> Inl e | Inr ys \<Rightarrow> Inr (y # ys)))"

text \<open>\<^verbatim>\<open>datetime.fromtimestamp(x)\<close> takes a number (a \<^verbatim>\<open>bool\<close> is an \<^verbatim>\<open>int\<close>), rounds a
  float to microseconds (a half to the even neighbour) and fails outside the range of
  the platform, which is the parameter \<open>in_range\<close>.\<close>

definition round_half_even :: "real \<Rightarrow> int" where
  "round_half_even y =
     (let f = \<lfloor>y\<rfloor>; r = y - of_int f
      in if r < 1 / 2 then f else if 1 / 2 < r then f + 1 else if even f then f else f + 1)"

definition microseconds :: "real \<Rightarrow> real" where
  "microseconds x = of_int (round_half_even (x * 1000000)) / 1000000"

fun fromtimestamp :: "(real \<Rightarrow> bool) \<Rightarrow> py \<Rightarrow> exn + py" where
  "fromtimestamp in_range (PInt n) =
     (if in_range (of_int n) then Inr (PDatetime (of_int n)) else Inl OverflowError)"
| "fromtimestamp in_range (PFloat x) =
     (if in_range x then Inr (PDatetime (microseconds x)) else Inl OverflowError)"
| "fromtimestamp in_range (PBool b) =
     (if in_range (if b then 1 else 0) then Inr (PDatetime (if b then 1 else 0))
      else Inl OverflowError)"
| "fromtimestamp in_range _ = Inl TypeError"

section \<open>The network\<close>

text \<open>
  The three requests the client sends (the API key is a constant of the process and is
  left out), and what comes back: no response at all, or a status code with a body that
  is a JSON document or is not.
\<close>

datatype request =
    GeoDirect string nat
  | Weather real real string
  | Forecast real real string

datatype http_result =
    NoResponse
  | Response nat "py option"

text \<open>The network answers the \<open>n\<close>-th request of its history as \<open>respond n\<close> says, and
  \<open>sent\<close> records every request made.\<close>

record network =
  respond :: "nat \<Rightarrow> request \<Rightarrow> http_result"
  sent :: "request list"

definition http_get :: "request \<Rightarrow> network \<Rightarrow> http_result \<times> network" where
  "http_get r net = (respond net (length (sent net)) r, net\<lparr>sent := sent net @ [r]\<rparr>)"

text \<open>\<^verbatim>\<open>await client.get(...)\<close>, \<^verbatim>\<open>response.raise_for_status()\<close> and \<^verbatim>\<open>response.json()\<close>:
  the decoded document of a response with a 2xx status.\<close>

definition is_success :: "nat \<Rightarrow> bool" where
  "is_success status = (200 \<le> status \<and> status < 300)"

fun json_of :: "http_result \<Rightarrow> exn + py" where
  "json_of NoResponse = Inl TransportError"
| "json_of (Response status body) =
     (if \<not> is_success status then Inl (HTTPStatusError status)
      else case body of None \<Rightarrow> Inl JSONDecodeError | Some data \<Rightarrow> Inr data)"

text \<open>\<^verbatim>\<open>try: ... except Exception as e: print(...)\<close> followed by the function's final
  \<^verbatim>\<open>return\<close>: every exception of the body is an \<^verbatim>\<open>Exception\<close>, so it is caught and the
  default is returned. The result stays a sum so that "does not raise" can be stated.\<close>

definition except_Exception :: "exn + 'a \<Rightarrow> 'a \<Rightarrow> exn + 'a" where
  "except_Exception body dflt = (case body of Inl e \<Rightarrow> Inr dflt | Inr v \<Rightarrow> Inr v)"

section \<open>weather\_api.py\<close>

definition search_item :: "py \<Rightarrow> exn + py" where
  "search_item item =
     then_try (get_key item ''name'') (\<lambda>name.
     then_try (get_key item ''country'') (\<lambda>country.
     then_try (dict_get item ''state'' (PStr '''')) (\<lambda>state.
     then_try (get_key item ''lat'') (\<lambda>lat.
     then_try (get_key item ''lon'') (\<lambda>lon.
       Inr (PDict [(''name'', name), (''country'', country), (''state'', state),
                   (''lat'', lat), (''lon'', lon)]))))))"

definition search_cities_try :: "http_result \<Rightarrow> exn + py list" where
  "search_cities_try resp =
     then_try (json_of resp) (\<lambda>data.
     then_try (iterate data) (\<lambda>items. append_each search_item items))"

definition weather_api_search_cities :: "string \<Rightarrow> network \<Rightarrow> (exn + py list) \<times> network" where
  "weather_api_search_cities query net =
     (case http_get (GeoDirect query 5) net of
        (resp, net') \<Rightarrow> (except_Exception (search_cities_try resp) [], net'))"

definition get_coordinates_try :: "http_result \<Rightarrow> exn + py option" where
  "get_coordinates_try resp =
     then_try (json_of resp) (\<lambda>data.
       if truthy data then
         then_try (get_first data) (\<lambda>d0.
         then_try (get_key d0 ''lat'') (\<lambda>lat.
         then_try (get_first data) (\<lambda>d1.
         then_try (get_key d1 ''lon'') (\<lambda>lon.
         then_try (get_first data) (\<lambda>d2.
         then_try (get_key d2 ''name'') (\<lambda>name.
         then_try (get_first data) (\<lambda>d3.
         then_try (get_key d3 ''country'') (\<lambda>country.
           Inr (Some (PDict [(''lat'', lat), (''lon'', lon), (''name'', name),
                             (''country'', country)]))))))))))
       else Inr None)"

definition weather_api_get_coordinates ::
  "string \<Rightarrow> network \<Rightarrow> (exn + py option) \<times> network" where
  "weather_api_get_coordinates city_name net =
     (case http_get (GeoDirect city_name 1) net of
        (resp, net') \<Rightarrow> (except_Exception (get_coordinates_try resp) None, net'))"

definition get_current_weather_try :: "http_result \<Rightarrow> exn + py option" where
  "get_current_weather_try resp =
     then_try (json_of resp) (\<lambda>data.
     then_try (then_try (get_key data ''main'') (\<lambda>m. get_key m ''temp'')) (\<lambda>temp.
     then_try (then_try (then_try (get_key data ''weather'') get_first)
                 (\<lambda>w. get_key w ''description'')) (\<lambda>description.
     then_try (then_try (then_try (get_key data ''weather'') get_first)
                 (\<lambda>w. get_key w ''icon'')) (\<lambda>icon.
     then_try (then_try (get_key data ''main'') (\<lambda>m. get_key m ''humidity'')) (\<lambda>humidity.
     then_try (then_try (get_key data ''wind'') (\<lambda>w. get_key w ''speed'')) (\<lambda>wind_speed.
     then_try (then_try (get_key data ''main'') (\<lambda>m. get_key m ''feels_like'')) (\<lambda>feels_like.
       Inr (Some (PDict [(''temp'', temp), (''description'', description), (''icon'', icon),
                         (''humidity'', humidity), (''wind_speed'', wind_speed),
                         (''feels_like'', feels_like)])))))))))"

definition weather_api_get_current_weather ::
  "real \<Rightarrow> real \<Rightarrow> string \<Rightarrow> network \<Rightarrow> (exn + py option) \<times> network" where
  "weather_api_get_current_weather lat lon units net =
     (case http_get (Weather lat lon units) net of
        (resp, net') \<Rightarrow> (except_Exception (get_current_weather_try resp) None, net'))"

definition forecast_item :: "(real \<Rightarrow> bool) \<Rightarrow> py \<Rightarrow> exn + py" where
  "forecast_item in_range item =
     then_try (then_try (get_key item ''main'') (\<lambda>m. get_key m ''temp'')) (\<lambda>temp.
     then_try (then_try (then_try (get_key item ''weather'') get_first)
                 (\<lambda>w. get_key w ''description'')) (\<lambda>description.
     then_try (then_try (then_try (get_key item ''weather'') get_first)
                 (\<lambda>w. get_key w ''icon'')) (\<lambda>icon.
     then_try (then_try (get_key item ''dt'') (fromtimestamp in_range)) (\<lambda>timestamp.
       Inr (PDict [(''temp'', temp), (''description'', description), (''icon'', icon),
                   (''timestamp'', timestamp)])))))"

definition get_forecast_try :: "(real \<Rightarrow> bool) \<Rightarrow> http_result \<Rightarrow> exn + py list" where
  "get_forecast_try in_range resp =
     then_try (json_of resp) (\<lambda>data.
     then_try (get_key data ''list'') (\<lambda>l.
     then_try (iterate l) (\<lambda>items. append_each (forecast_item in_range) items)))"

definition weather_api_get_forecast ::
  "(real \<Rightarrow> bool) \<Rightarrow> real \<Rightarrow> real \<Rightarrow> string \<Rightarrow> network \<Rightarrow> (exn + py list) \<times> network" where
  "weather_api_get_forecast in_range lat lon units net =
     (case http_get (Forecast lat lon units) net of
        (resp, net') \<Rightarrow> (except_Exception (get_forecast_try in_range resp) [], net'))"

section \<open>models.py and the database\<close>

text \<open>
  The handlers of \<^verbatim>\<open>main.py\<close> see the provider client through the dictionaries it returns.
  A field of such a dictionary is \<open>None\<close> when the provider sent a JSON null, and else a
  value of the type \<^verbatim>\<open>models.py\<close> declares for the column it goes to. A number is the real
  number it denotes, whether Python holds it as a float or as an int; a \<^verbatim>\<open>datetime\<close> is an
  instant in microseconds.
\<close>

type_synonym datetime = int

record location =
  loc_id :: int
  loc_name :: string
  loc_country :: string
  loc_lat :: real
  loc_lon :: real
  loc_display_name :: "string option"
  loc_is_favorite :: bool
  loc_last_synced :: "datetime option"

record weather_snapshot =
  snap_id :: int
  snap_location_id :: int
  snap_temp :: real
  snap_description :: string
  snap_icon :: string
  snap_humidity :: int
  snap_wind_speed :: real
  snap_feels_like :: real
  snap_timestamp :: datetime

record geo_data =
  geo_lat :: "real option"
  geo_lon :: "real option"
  geo_name :: "string option"
  geo_country :: "string option"

record weather_data =
  wd_temp :: "real option"
  wd_description :: "string option"
  wd_icon :: "string option"
  wd_humidity :: "int option"
  wd_wind_speed :: "real option"
  wd_feels_like :: "real option"

record forecast_entry =
  fc_temp :: real
  fc_description :: string
  fc_icon :: string
  fc_timestamp :: datetime

text \<open>
  What one request meets outside the database: the answers of the provider client and
  the clock, \<open>utcnow k\<close> being the \<open>k\<close>-th reading of \<^verbatim>\<open>datetime.utcnow()\<close> within the
  request. Two requests may meet different providers.
\<close>

record provider =
  get_coordinates :: "string \<Rightarrow> geo_data option"
  get_current_weather :: "real \<Rightarrow> real \<Rightarrow> weather_data option"
  get_forecast :: "real \<Rightarrow> real \<Rightarrow> forecast_entry list"
  utcnow :: "nat \<Rightarrow> datetime"

text \<open>
  The store: its two tables, each a list of rows in the order of insertion, and the way
  a column of type REAL keeps a number. Such a column holds doubles, so it keeps the
  nearest double of what it is given; that rounding belongs to the storage engine and is
  the parameter \<open>real_column\<close>. No handler changes it.
\<close>

record database =
  locations :: "location list"
  snapshots :: "weather_snapshot list"
  real_column :: "real \<Rightarrow> real"

text \<open>The key the store assigns to an inserted row (SQLite, integer primary key): 1 in an
  empty table, otherwise one more than the largest key in use.\<close>

fun next_id :: "int list \<Rightarrow> int" where
  "next_id [] = 1"
| "next_id (i # ids) = fold max ids i + 1"

text \<open>\<^verbatim>\<open>session.get(Location, location_id)\<close> and \<^verbatim>\<open>session.get(WeatherSnapshot, id)\<close>.\<close>

definition get_location :: "database \<Rightarrow> int \<Rightarrow> location option" where
  "get_location db i = find (\<lambda>l. loc_id l = i) (locations db)"

definition get_snapshot :: "database \<Rightarrow> int \<Rightarrow> weather_snapshot option" where
  "get_snapshot db i = find (\<lambda>s. snap_id s = i) (snapshots db)"

text \<open>\<^verbatim>\<open>select(Location).where(Location.lat == lat, Location.lon == lon)\<close>, \<^verbatim>\<open>.first()\<close>: the
  number a row has stored is compared with the number the provider gave. A null
  matches no row, the columns being NOT NULL.\<close>

definition first_at :: "database \<Rightarrow> real option \<Rightarrow> real option \<Rightarrow> location option" where
  "first_at db lat lon =
     find (\<lambda>l. Some (loc_lat l) = lat \<and> Some (loc_lon l) = lon) (locations db)"

text \<open>The row that \<^verbatim>\<open>session.add(Location(...)); session.commit()\<close> inserts for a resolved
  city: it gets the next key, and its coordinates are what the REAL columns keep of the
  provider's numbers. There is no such row when a field is null: every column filled
  here is NOT NULL, and the commit raises \<^verbatim>\<open>IntegrityError\<close>.\<close>

definition new_location :: "geo_data \<Rightarrow> database \<Rightarrow> location option" where
  "new_location geo db =
     (case geo_name geo of None \<Rightarrow> None | Some name \<Rightarrow>
      case geo_country geo of None \<Rightarrow> None | Some country \<Rightarrow>
      case geo_lat geo of None \<Rightarrow> None | Some lat \<Rightarrow>
      case geo_lon geo of None \<Rightarrow> None | Some lon \<Rightarrow>
        Some \<lparr>loc_id = next_id (map loc_id (locations db)),
              loc_name = name,
              loc_country = country,
              loc_lat = real_column db lat,
              loc_lon = real_column db lon,
              loc_display_name = None,
              loc_is_favorite = False,
              loc_last_synced = None\<rparr>)"

text \<open>The row that \<^verbatim>\<open>session.add(WeatherSnapshot(...)); session.commit()\<close> inserts for a
  fetched weather record, with the first clock reading as its timestamp; again there is
  none when a field is null.\<close>

definition new_snapshot ::
  "provider \<Rightarrow> int \<Rightarrow> weather_data \<Rightarrow> database \<Rightarrow> weather_snapshot option" where
  "new_snapshot p location_id w db =
     (case wd_temp w of None \<Rightarrow> None | Some temp \<Rightarrow>
      case wd_description w of None \<Rightarrow> None | Some description \<Rightarrow>
      case wd_icon w of None \<Rightarrow> None | Some icon \<Rightarrow>
      case wd_humidity w of None \<Rightarrow> None | Some humidity \<Rightarrow>
      case wd_wind_speed w of None \<Rightarrow> None | Some wind_speed \<Rightarrow>
      case wd_feels_like w of None \<Rightarrow> None | Some feels_like \<Rightarrow>
        Some \<lparr>snap_id = next_id (map snap_id (snapshots db)),
              snap_location_id = location_id,
              snap_temp = real_column db temp,
              snap_description = description,
              snap_icon = icon,
              snap_humidity = humidity,
              snap_wind_speed = real_column db wind_speed,
              snap_feels_like = real_column db feels_like,
              snap_timestamp = utcnow p 0\<rparr>)"

text \<open>\<^verbatim>\<open>session.add(x); session.commit()\<close> for an object of the session: its row, found by
  the primary key, takes the object's state.\<close>

definition commit_location :: "location \<Rightarrow> database \<Rightarrow> database" where
  "commit_location l db =
     db\<lparr>locations := map (\<lambda>r. if loc_id r = loc_id l then l else r) (locations db)\<rparr>"

text \<open>\<^verbatim>\<open>session.delete(x)\<close>: the rows with the primary key of \<open>x\<close> go.\<close>

definition delete_snapshot :: "weather_snapshot \<Rightarrow> database \<Rightarrow> database" where
  "delete_snapshot s db = db\<lparr>snapshots := filter (\<lambda>r. snap_id r \<noteq> snap_id s) (snapshots db)\<rparr>"

definition delete_location_row :: "location \<Rightarrow> database \<Rightarrow> database" where
  "delete_location_row l db = db\<lparr>locations := filter (\<lambda>r. loc_id r \<noteq> loc_id l) (locations db)\<rparr>"

text \<open>\<^verbatim>\<open>session.refresh(location)\<close>: the object takes the state of its row.\<close>

definition refresh :: "database \<Rightarrow> location \<Rightarrow> location" where
  "refresh db l = (case get_location db (loc_id l) of None \<Rightarrow> l | Some r \<Rightarrow> r)"

text \<open>
  An object of the session as a handler returns it. \<^verbatim>\<open>session.commit()\<close> expires every
  object of the session: its attributes are gone until something reads one of them or
  refreshes the object, and the response made from an expired object is \<^verbatim>\<open>{}\<close>. A loaded
  object shows the state of its row.
\<close>

datatype 'a session_object = Loaded 'a | Expired

section \<open>main.py\<close>

text \<open>What a handler raises: an \<^verbatim>\<open>HTTPException\<close> with its status and detail, or the
  \<^verbatim>\<open>IntegrityError\<close> of a commit, which no handler catches (the response is a 500). The
  session is closed without a commit, so a handler that raises leaves the database as
  its last commit left it.\<close>

datatype failure = HTTPException nat string | IntegrityError

text \<open>\<^verbatim>\<open>GET /api/locations\<close>.\<close>

definition read_locations :: "database \<Rightarrow> location list" where
  "read_locations db = locations db"

text \<open>\<^verbatim>\<open>GET /api/search\<close>.\<close>

definition search_cities :: "string \<Rightarrow> network \<Rightarrow> (exn + py list) \<times> network" where
  "search_cities q net =
     (if q = [] \<or> length q < 3 then (Inr [], net) else weather_api_search_cities q net)"

text \<open>\<^verbatim>\<open>POST /api/sync/{location_id}\<close>. The answer \<^verbatim>\<open>{"status": "success", "data": snapshot}\<close>
  is modelled by its snapshot object, which the commit has expired.\<close>

definition sync_location_weather ::
  "provider \<Rightarrow> int \<Rightarrow> database \<Rightarrow> (failure + weather_snapshot session_object) \<times> database" where
  "sync_location_weather p location_id db =
     (case get_location db location_id of
        None \<Rightarrow> (Inl (HTTPException 404 ''Location not found''), db)
      | Some location \<Rightarrow>
          (case get_current_weather p (loc_lat location) (loc_lon location) of
             None \<Rightarrow> (Inl (HTTPException 503 ''Weather API unavailable''), db)
           | Some weather_data \<Rightarrow>
               (case new_snapshot p location_id weather_data db of
                  None \<Rightarrow> (Inl IntegrityError, db)
                | Some snapshot \<Rightarrow>
                    (let db1 = db\<lparr>snapshots := snapshots db @ [snapshot]\<rparr>;
                         db2 = commit_location
                                 (location\<lparr>loc_last_synced := Some (utcnow p 1)\<rparr>) db1
                     in (Inr Expired, db2)))))"

text \<open>\<^verbatim>\<open>POST /api/locations\<close>. The new location is committed and refreshed before the sync
  is called; the sync's commit expires it, and it is returned as it then is.\<close>

definition create_location ::
  "provider \<Rightarrow> string \<Rightarrow> database \<Rightarrow> (failure + location session_object) \<times> database" where
  "create_location p city_name db =
     (case get_coordinates p city_name of
        None \<Rightarrow> (Inl (HTTPException 404 ''City not found or API error''), db)
      | Some geo \<Rightarrow>
          (case first_at db (geo_lat geo) (geo_lon geo) of
             Some existing \<Rightarrow> (Inr (Loaded existing), db)
           | None \<Rightarrow>
               (case new_location geo db of
                  None \<Rightarrow> (Inl IntegrityError, db)
                | Some location \<Rightarrow>
                    (let db1 = db\<lparr>locations := locations db @ [location]\<rparr>
                     in case sync_location_weather p (loc_id location) db1 of
                          (Inl e, db2) \<Rightarrow> (Inl e, db2)
                        | (Inr _, db2) \<Rightarrow> (Inr Expired, db2)))))"

text \<open>\<^verbatim>\<open>PATCH /api/locations/{location_id}\<close>. The location is refreshed after the commit, so
  the object returned is a loaded one.\<close>

definition update_location ::
  "int \<Rightarrow> bool option \<Rightarrow> string option \<Rightarrow> database \<Rightarrow> (failure + location) \<times> database"
  where
  "update_location location_id is_favorite display_name db =
     (case get_location db location_id of
        None \<Rightarrow> (Inl (HTTPException 404 ''Location not found''), db)
      | Some location \<Rightarrow>
          (let l1 = (case is_favorite of
                       None \<Rightarrow> location
                     | Some b \<Rightarrow> location\<lparr>loc_is_favorite := b\<rparr>);
               l2 = (case display_name of
                       None \<Rightarrow> l1
                     | Some d \<Rightarrow> l1\<lparr>loc_display_name := Some d\<rparr>);
               db1 = commit_location l2 db
           in (Inr (refresh db1 l2), db1)))"

text \<open>\<^verbatim>\<open>DELETE /api/locations/{location_id}\<close>; the answer \<^verbatim>\<open>{"ok": True}\<close> is its flag.\<close>

definition delete_location :: "int \<Rightarrow> database \<Rightarrow> (failure + bool) \<times> database" where
  "delete_location location_id db =
     (case get_location db location_id of
        None \<Rightarrow> (Inl (HTTPException 404 ''Location not found''), db)
      | Some location \<Rightarrow>
          (let snaps = filter (\<lambda>s. snap_location_id s = location_id) (snapshots db);
               db1 = fold delete_snapshot snaps db;
               db2 = delete_location_row location db1
           in (Inr True, db2)))"

text \<open>\<^verbatim>\<open>GET /api/weather/{location_id}\<close>. The latest snapshot is the first row in descending
  order of the timestamp; among rows of one timestamp the earlier row is taken.\<close>

fun latest :: "weather_snapshot list \<Rightarrow> weather_snapshot option" where
  "latest [] = None"
| "latest (s # ss) =
     (case latest ss of
        None \<Rightarrow> Some s
      | Some t \<Rightarrow> if snap_timestamp s < snap_timestamp t then Some t else Some s)"

definition get_weather ::
  "provider \<Rightarrow> int \<Rightarrow> database \<Rightarrow>
   failure + location \<times> weather_snapshot option \<times> forecast_entry list" where
  "get_weather p location_id db =
     (case get_location db location_id of
        None \<Rightarrow> Inl (HTTPException 404 ''Location not found'')
      | Some location \<Rightarrow>
          Inr (location,
               latest (filter (\<lambda>s. snap_location_id s = location_id) (snapshots db)),
               get_forecast p (loc_lat location) (loc_lon location)))"

section \<open>The states the system reaches\<close>

text \<open>One call of a handler, and the database it leaves. The three reading handlers
  write nothing.\<close>

datatype call =
    ReadLocations
  | SearchCities string
  | CreateLocation string
  | UpdateLocation int "bool option" "string option"
  | DeleteLocation int
  | GetWeather int
  | SyncLocationWeather int

fun db_after :: "provider \<Rightarrow> call \<Rightarrow> database \<Rightarrow> database" where
  "db_after p ReadLocations db = db"
| "db_after p (SearchCities q) db = db"
| "db_after p (CreateLocation city_name) db = snd (create_location p city_name db)"
| "db_after p (UpdateLocation i f d) db = snd (update_location i f d db)"
| "db_after p (DeleteLocation i) db = snd (delete_location i db)"
| "db_after p (GetWeather i) db = db"
| "db_after p (SyncLocationWeather i) db = snd (sync_location_weather p i db)"

text \<open>The system starts with both tables empty, whatever the rounding of the store.\<close>

inductive reachable :: "database \<Rightarrow> bool" where
  start: "locations db = [] \<Longrightarrow> snapshots db = [] \<Longrightarrow> reachable db"
| after: "reachable db \<Longrightarrow> reachable (db_after p c db)"

text \<open>What every reachable database satisfies: keys are unique in both tables and every
  snapshot refers to a location.\<close>

definition db_ok :: "database \<Rightarrow> bool" where
  "db_ok db \<longleftrightarrow>
     distinct (map loc_id (locations db)) \<and>
     distinct (map snap_id (snapshots db)) \<and>
     list_all (\<lambda>s. snap_location_id s \<in> set (map loc_id (locations db))) (snapshots db)"

text \<open>
  The invariant of the spec, at most one location for a pair of coordinates, is not
  among them: it rests on a lookup before the insert, and the lookup misses a row whose
  REAL columns did not keep the provider's numbers. \<open>kept_exactly db geo\<close> says that
  the resolved record can be stored and found again: no field is null, and the REAL
  columns keep both coordinates as they are (as they do every float).
\<close>

definition one_per_coordinates :: "database \<Rightarrow> bool" where
  "one_per_coordinates db \<longleftrightarrow> distinct (map (\<lambda>l. (loc_lat l, loc_lon l)) (locations db))"

definition kept_exactly :: "database \<Rightarrow> geo_data \<Rightarrow> bool" where
  "kept_exactly db geo =
     (case new_location geo db of
        None \<Rightarrow> False
      | Some l \<Rightarrow> Some (loc_lat l) = geo_lat geo \<and> Some (loc_lon l) = geo_lon geo)"

section \<open>Example data\<close>

text \<open>The provider answers of the repository's test (\<^verbatim>\<open>tests/test_api.py\<close>), a provider whose
  weather service is down, and the databases one \<^verbatim>\<open>POST /api/locations?city_name=London\<close>
  leaves with each of them. The numbers of the example are floats, and the example store
  keeps them as they are.\<close>

definition empty_db :: database where
  "empty_db = \<lparr>locations = [], snapshots = [], real_column = (\<lambda>x. x)\<rparr>"

definition london :: geo_data where
  "london = \<lparr>geo_lat = Some 51.5074, geo_lon = Some (-0.1278), geo_name = Some ''London'',
     geo_country = Some ''GB''\<rparr>"

definition clear_sky :: weather_data where
  "clear_sky = \<lparr>wd_temp = Some 15.5, wd_description = Some ''clear sky'',
     wd_icon = Some ''01d'', wd_humidity = Some 50, wd_wind_speed = Some 5.0,
     wd_feels_like = Some 14.0\<rparr>"

definition provider_up :: provider where
  "provider_up =
     \<lparr>get_coordinates = (\<lambda>c. if c = ''London'' then Some london else None),
      get_current_weather = (\<lambda>lat lon. Some clear_sky),
      get_forecast = (\<lambda>lat lon. []),
      utcnow = (\<lambda>k. 1000 + int k)\<rparr>"

definition provider_down :: provider where
  "provider_down =
     \<lparr>get_coordinates = (\<lambda>c. if c = ''London'' then Some london else None),
      get_current_weather = (\<lambda>lat lon. None),
      get_forecast = (\<lambda>lat lon. []),
      utcnow = (\<lambda>k. 1000 + int k)\<rparr>"

definition london_unsynced :: location where
  "london_unsynced =
     \<lparr>loc_id = 1, loc_name = ''London'', loc_country = ''GB'', loc_lat = 51.5074,
      loc_lon = -0.1278, loc_display_name = None, loc_is_favorite = False,
      loc_last_synced = None\<rparr>"

definition london_snapshot :: weather_snapshot where
  "london_snapshot =
     \<lparr>snap_id = 1, snap_location_id = 1, snap_temp = 15.5, snap_description = ''clear sky'',
      snap_icon = ''01d'', snap_humidity = 50, snap_wind_speed = 5.0, snap_feels_like = 14.0,
      snap_timestamp = 1000\<rparr>"

definition db_unsynced :: database where
  "db_unsynced = empty_db\<lparr>locations := [london_unsynced]\<rparr>"

definition db_synced :: database where
  "db_synced =
     empty_db\<lparr>locations := [london_unsynced\<lparr>loc_last_synced := Some 1001\<rparr>],
              snapshots := [london_snapshot]\<rparr>"

section \<open>What the provider client reads and returns\<close>

text \<open>The response the network gives to the next request.\<close>

definition next_response :: "network \<Rightarrow> request \<Rightarrow> http_result" where
  "next_response net r = respond net (length (sent net)) r"

text \<open>The three upstream failures that leave the client without a document: no response,
  a status outside 2xx, a body that is not JSON.\<close>

definition failed :: "http_result \<Rightarrow> bool" where
  "failed resp =
     (case resp of
        NoResponse \<Rightarrow> True
      | Response status body \<Rightarrow> \<not> is_success status \<or> body = None)"

text \<open>The number of elements of the JSON array a response carries.\<close>

fun array_length :: "http_result \<Rightarrow> nat" where
  "array_length (Response status (Some (PList items))) = length items"
| "array_length _ = 0"

text \<open>A dictionary with exactly the keys \<open>ks\<close>, in this order.\<close>

definition has_keys :: "string list \<Rightarrow> py \<Rightarrow> bool" where
  "has_keys ks v = (case v of PDict kvs \<Rightarrow> map fst kvs = ks | _ \<Rightarrow> False)"

text \<open>A path into a document: \<^verbatim>\<open>data["weather"][0]["icon"]\<close> is
  \<open>value_at data [Key ''weather'', First, Key ''icon'']\<close>.\<close>

datatype step = Key string | First

fun value_at :: "py \<Rightarrow> step list \<Rightarrow> exn + py" where
  "value_at v [] = Inr v"
| "value_at v (Key k # path) = then_try (get_key v k) (\<lambda>u. value_at u path)"
| "value_at v (First # path) = then_try (get_first v) (\<lambda>u. value_at u path)"

text \<open>\<open>reads data fds d\<close>: for every field \<open>(k, path)\<close> the document has a value at
  \<open>path\<close>, and \<open>d\<close> holds that value under \<open>k\<close>.\<close>

definition reads :: "py \<Rightarrow> (string \<times> step list) list \<Rightarrow> py \<Rightarrow> bool" where
  "reads data fds d =
     list_all (\<lambda>(k, path). case value_at data path of Inl e \<Rightarrow> False | Inr v \<Rightarrow> get_key d k = Inr v)
       fds"

definition search_fields :: "(string \<times> step list) list" where
  "search_fields =
     [(''name'', [Key ''name'']), (''country'', [Key ''country'']),
      (''lat'', [Key ''lat'']), (''lon'', [Key ''lon''])]"

definition coordinate_fields :: "(string \<times> step list) list" where
  "coordinate_fields =
     [(''lat'', [First, Key ''lat'']), (''lon'', [First, Key ''lon'']),
      (''name'', [First, Key ''name'']), (''country'', [First, Key ''country''])]"

definition weather_fields :: "(string \<times> step list) list" where
  "weather_fields =
     [(''temp'', [Key ''main'', Key ''temp'']),
      (''description'', [Key ''weather'', First, Key ''description'']),
      (''icon'', [Key ''weather'', First, Key ''icon'']),
      (''humidity'', [Key ''main'', Key ''humidity'']),
      (''wind_speed'', [Key ''wind'', Key ''speed'']),
      (''feels_like'', [Key ''main'', Key ''feels_like''])]"

definition forecast_fields :: "(string \<times> step list) list" where
  "forecast_fields =
     [(''temp'', [Key ''main'', Key ''temp'']),
      (''description'', [Key ''weather'', First, Key ''description'']),
      (''icon'', [Key ''weather'', First, Key ''icon''])]"

text \<open>A search candidate made from one element of the provider's array: all five keys,
  the four required ones read from the element, \<^verbatim>\<open>state\<close> read or defaulted.\<close>

definition candidate_of :: "py \<Rightarrow> py \<Rightarrow> bool" where
  "candidate_of item c \<longleftrightarrow>
     has_keys [''name'', ''country'', ''state'', ''lat'', ''lon''] c \<and>
     reads item search_fields c \<and>
     Inr (case get_key item ''state'' of Inl e \<Rightarrow> PStr '''' | Inr s \<Rightarrow> s) = get_key c ''state''"

text \<open>A forecast entry made from one element of the provider's list: all four keys,
  three read from the element, the timestamp converted from its \<^verbatim>\<open>dt\<close>.\<close>

definition entry_of :: "(real \<Rightarrow> bool) \<Rightarrow> py \<Rightarrow> py \<Rightarrow> bool" where
  "entry_of in_range item f \<longleftrightarrow>
     has_keys [''temp'', ''description'', ''icon'', ''timestamp''] f \<and>
     reads item forecast_fields f \<and>
     (case get_key item ''dt'' of
        Inl e \<Rightarrow> False
      | Inr dt \<Rightarrow> fromtimestamp in_range dt = get_key f ''timestamp'')"

text \<open>The results the four client functions may give for a response: the empty or absent
  one, or one made whole from the document of the response.\<close>

definition search_result :: "http_result \<Rightarrow> py list \<Rightarrow> bool" where
  "search_result resp cs \<longleftrightarrow>
     cs = [] \<or>
     (case json_of resp of
        Inr (PList items) \<Rightarrow> list_all2 candidate_of items cs
      | _ \<Rightarrow> False)"

definition coordinates_result :: "http_result \<Rightarrow> py option \<Rightarrow> bool" where
  "coordinates_result resp r \<longleftrightarrow>
     (case r of
        None \<Rightarrow> True
      | Some d \<Rightarrow>
          (case json_of resp of
             Inr data \<Rightarrow> has_keys [''lat'', ''lon'', ''name'', ''country''] d \<and>
                         reads data coordinate_fields d
           | Inl e \<Rightarrow> False))"

definition weather_result :: "http_result \<Rightarrow> py option \<Rightarrow> bool" where
  "weather_result resp r \<longleftrightarrow>
     (case r of
        None \<Rightarrow> True
      | Some d \<Rightarrow>
          (case json_of resp of
             Inr data \<Rightarrow>
               has_keys [''temp'', ''description'', ''icon'', ''humidity'', ''wind_speed'',
                         ''feels_like''] d \<and>
               reads data weather_fields d
           | Inl e \<Rightarrow> False))"

definition forecast_result :: "(real \<Rightarrow> bool) \<Rightarrow> http_result \<Rightarrow> py list \<Rightarrow> bool" where
  "forecast_result in_range resp fs \<longleftrightarrow>
     fs = [] \<or>
     (case json_of resp of
        Inr data \<Rightarrow>
          (case get_key data ''list'' of
             Inr (PList items) \<Rightarrow> list_all2 (entry_of in_range) items fs
           | _ \<Rightarrow> False)
      | Inl e \<Rightarrow> False)"

text \<open>Example networks: one that never answers, one whose geocoding answer has six
  elements, and one whose weather document has a null temperature.\<close>

definition offline :: network where
  "offline = \<lparr>respond = (\<lambda>n r. NoResponse), sent = []\<rparr>"

definition springfield :: py where
  "springfield =
     PDict [(''name'', PStr ''Springfield''), (''country'', PStr ''US''),
            (''state'', PStr ''Illinois''), (''lat'', PFloat 39.7990),
            (''lon'', PFloat (-89.6440))]"

definition six_answers :: network where
  "six_answers =
     \<lparr>respond = (\<lambda>n r. Response 200 (Some (PList
         [springfield, springfield, springfield, springfield, springfield, springfield]))),
      sent = []\<rparr>"

definition null_temp :: py where
  "null_temp =
     PDict [(''main'', PDict [(''temp'', PNone), (''humidity'', PInt 50),
                              (''feels_like'', PFloat 14.0)]),
            (''weather'', PList [PDict [(''description'', PStr ''clear sky''),
                                        (''icon'', PStr ''01d'')]]),
            (''wind'', PDict [(''speed'', PFloat 5.0)])]"

definition null_temp_network :: network where
  "null_temp_network = \<lparr>respond = (\<lambda>n r. Response 200 (Some null_temp)), sent = []\<rparr>"

section \<open>Keys, lookups and the invariant\<close>

lemma fold_max_ge: "(j::int) \<le> fold max xs j \<and> (\<forall>x \<in> set xs. x \<le> fold max xs j)"
proof (induction xs arbitrary: j)
  case Nil
  then show ?case by simp
next
  case (Cons y ys)
  have "max y j \<le> fold max ys (max y j)" using Cons by blast
  then show ?case using Cons[of "max y j"] by auto
qed

lemma next_id_fresh: "next_id ids \<notin> set ids"
proof (cases ids)
  case Nil
  then show ?thesis by simp
next
  case (Cons i rest)
  have "\<forall>j \<in> set ids. j \<le> fold max rest i"
    using Cons fold_max_ge[of i rest] by auto
  then show ?thesis using Cons by fastforce
qed

lemma find_in: "find P xs = Some x \<Longrightarrow> x \<in> set xs \<and> P x"
  by (induction xs) (auto split: if_splits)

lemma find_append_fresh: "find P xs = None \<Longrightarrow> P x \<Longrightarrow> find P (xs @ [x]) = Some x"
  by (induction xs) (auto split: if_splits)

lemma get_location_in: "get_location db i = Some l \<Longrightarrow> l \<in> set (locations db) \<and> loc_id l = i"
  unfolding get_location_def by (drule find_in) simp

lemma map_commit_ids:
  "map loc_id (map (\<lambda>r. if loc_id r = loc_id l then l else r) xs) = map loc_id xs"
  by (induction xs) auto

lemma distinct_same_id:
  "distinct (map loc_id xs) \<Longrightarrow> l \<in> set xs \<Longrightarrow> r \<in> set xs \<Longrightarrow> loc_id r = loc_id l \<Longrightarrow> r = l"
  by (meson distinct_map inj_on_def)

lemma map_commit_coords:
  assumes "distinct (map loc_id xs)" "l \<in> set xs" "loc_id l' = loc_id l"
    "loc_lat l' = loc_lat l" "loc_lon l' = loc_lon l"
  shows "map (\<lambda>l. (loc_lat l, loc_lon l)) (map (\<lambda>r. if loc_id r = loc_id l' then l' else r) xs)
       = map (\<lambda>l. (loc_lat l, loc_lon l)) xs"
proof -
  have "\<And>r. r \<in> set xs \<Longrightarrow> loc_id r = loc_id l' \<Longrightarrow> r = l"
    using assms(1,2,3) distinct_same_id by metis
  then have "\<And>r. r \<in> set xs \<Longrightarrow>
      (\<lambda>l. (loc_lat l, loc_lon l)) (if loc_id r = loc_id l' then l' else r) = (loc_lat r, loc_lon r)"
    using assms(4,5) by auto
  then show ?thesis by (simp add: comp_def cong: map_cong)
qed
lemma find_commit:
  "find (\<lambda>r. loc_id r = loc_id l') xs = Some l \<Longrightarrow>
   find (\<lambda>r. loc_id r = loc_id l') (map (\<lambda>r. if loc_id r = loc_id l' then l' else r) xs) = Some l'"
  by (induction xs) (auto split: if_splits)

lemma get_location_commit:
  assumes "get_location db i = Some l" "loc_id l' = i"
  shows "get_location (commit_location l' db) i = Some l'"
  using assms find_commit[of l' "locations db" l]
  by (simp add: get_location_def commit_location_def)

lemma commit_location_snapshots [simp]:
  "snapshots (commit_location l db) = snapshots db"
  by (simp add: commit_location_def)

lemma commit_location_real_column [simp]:
  "real_column (commit_location l db) = real_column db"
  by (simp add: commit_location_def)

lemma get_location_snapshots [simp]:
  "get_location (db\<lparr>snapshots := ss\<rparr>) i = get_location db i"
  by (simp add: get_location_def)

lemma commit_ok: "db_ok db \<Longrightarrow> db_ok (commit_location l db)"
  by (simp add: db_ok_def commit_location_def map_commit_ids del: map_map)

lemma commit_one_per_coordinates:
  assumes "db_ok db" "one_per_coordinates db" "get_location db i = Some l"
    "loc_id l' = loc_id l" "loc_lat l' = loc_lat l" "loc_lon l' = loc_lon l"
  shows "one_per_coordinates (commit_location l' db)"
proof -
  have l: "l \<in> set (locations db)" using assms(3) get_location_in by blast
  have d: "distinct (map loc_id (locations db))" using assms(1) by (simp add: db_ok_def)
  show ?thesis
    using assms(2) map_commit_coords[OF d l assms(4,5,6)]
    by (simp add: one_per_coordinates_def commit_location_def del: map_map)
qed

lemma new_location_Some:
  assumes "new_location geo db = Some l"
  shows "loc_id l = next_id (map loc_id (locations db))"
    and "geo_name geo = Some (loc_name l)" and "geo_country geo = Some (loc_country l)"
    and "\<exists>lat lon. geo_lat geo = Some lat \<and> geo_lon geo = Some lon \<and>
           loc_lat l = real_column db lat \<and> loc_lon l = real_column db lon"
    and "loc_display_name l = None" and "\<not> loc_is_favorite l" and "loc_last_synced l = None"
  using assms by (auto simp: new_location_def split: option.splits)

lemma new_snapshot_Some:
  assumes "new_snapshot p i w db = Some s"
  shows "snap_id s = next_id (map snap_id (snapshots db))" and "snap_location_id s = i"
  using assms by (auto simp: new_snapshot_def split: option.splits)

lemma new_snapshot_locations [simp]:
  "new_snapshot p i w (db\<lparr>locations := ls\<rparr>) = new_snapshot p i w db"
  by (simp add: new_snapshot_def split: option.splits)

lemma new_snapshot_fresh:
  "new_snapshot p i w db = Some s \<Longrightarrow> snap_id s \<notin> set (map snap_id (snapshots db))"
  using next_id_fresh[of "map snap_id (snapshots db)"] by (simp add: new_snapshot_Some(1))

lemma new_location_fresh:
  "new_location geo db = Some l \<Longrightarrow> loc_id l \<notin> set (map loc_id (locations db))"
  using next_id_fresh[of "map loc_id (locations db)"] by (simp add: new_location_Some(1))

lemma sync_success:
  assumes "get_location db i = Some l"
    and "get_current_weather p (loc_lat l) (loc_lon l) = Some w"
    and "new_snapshot p i w db = Some s"
  shows "sync_location_weather p i db =
    (Inr Expired,
     commit_location (l\<lparr>loc_last_synced := Some (utcnow p 1)\<rparr>)
       (db\<lparr>snapshots := snapshots db @ [s]\<rparr>))"
  using assms by (simp add: sync_location_weather_def Let_def)

lemma sync_integrity_error:
  assumes "get_location db i = Some l"
    and "get_current_weather p (loc_lat l) (loc_lon l) = Some w"
    and "new_snapshot p i w db = None"
  shows "sync_location_weather p i db = (Inl IntegrityError, db)"
  using assms by (simp add: sync_location_weather_def)

lemma sync_failure:
  assumes "fst (sync_location_weather p i db) \<noteq> Inr Expired"
  shows "snd (sync_location_weather p i db) = db"
  using assms by (auto simp: sync_location_weather_def Let_def split: option.splits)

lemma snapshot_append_ok:
  assumes "db_ok db" "snap_id s \<notin> set (map snap_id (snapshots db))"
    "snap_location_id s \<in> set (map loc_id (locations db))"
  shows "db_ok (db\<lparr>snapshots := snapshots db @ [s]\<rparr>)"
  using assms by (simp add: db_ok_def)

lemma sync_ok:
  assumes "db_ok db"
  shows "db_ok (snd (sync_location_weather p i db))"
proof (cases "fst (sync_location_weather p i db) = Inr Expired")
  case False
  then show ?thesis using assms by (simp add: sync_failure)
next
  case True
  then obtain l w s where r: "get_location db i = Some l"
      "get_current_weather p (loc_lat l) (loc_lon l) = Some w" "new_snapshot p i w db = Some s"
    by (auto simp: sync_location_weather_def split: option.splits)
  have ref: "snap_location_id s \<in> set (map loc_id (locations db))"
    using get_location_in[OF r(1)] new_snapshot_Some(2)[OF r(3)] by (force simp: image_iff)
  have "db_ok (db\<lparr>snapshots := snapshots db @ [s]\<rparr>)"
    by (rule snapshot_append_ok[OF assms new_snapshot_fresh[OF r(3)] ref])
  then show ?thesis unfolding sync_success[OF r] by (simp add: commit_ok)
qed

lemma sync_one_per_coordinates:
  assumes "db_ok db" "one_per_coordinates db"
  shows "one_per_coordinates (snd (sync_location_weather p i db))"
proof (cases "fst (sync_location_weather p i db) = Inr Expired")
  case False
  then show ?thesis using assms by (simp add: sync_failure)
next
  case True
  then obtain l w s where r: "get_location db i = Some l"
      "get_current_weather p (loc_lat l) (loc_lon l) = Some w" "new_snapshot p i w db = Some s"
    by (auto simp: sync_location_weather_def split: option.splits)
  let ?db1 = "db\<lparr>snapshots := snapshots db @ [s]\<rparr>"
  have ref: "snap_location_id s \<in> set (map loc_id (locations db))"
    using get_location_in[OF r(1)] new_snapshot_Some(2)[OF r(3)] by (force simp: image_iff)
  have ok1: "db_ok ?db1"
    by (rule snapshot_append_ok[OF assms(1) new_snapshot_fresh[OF r(3)] ref])
  have one1: "one_per_coordinates ?db1"
    using assms(2) by (simp add: one_per_coordinates_def)
  have g1: "get_location ?db1 i = Some l" using r(1) by simp
  have "one_per_coordinates
      (commit_location (l\<lparr>loc_last_synced := Some (utcnow p 1)\<rparr>) ?db1)"
    by (rule commit_one_per_coordinates[OF ok1 one1 g1]) simp_all
  then show ?thesis unfolding sync_success[OF r] by simp
qed

lemma update_success:
  assumes "get_location db i = Some l"
  shows "update_location i f d db =
     (Inr (l\<lparr>loc_is_favorite := (case f of None \<Rightarrow> loc_is_favorite l | Some b \<Rightarrow> b),
             loc_display_name := (case d of None \<Rightarrow> loc_display_name l | Some n \<Rightarrow> Some n)\<rparr>),
      commit_location
        (l\<lparr>loc_is_favorite := (case f of None \<Rightarrow> loc_is_favorite l | Some b \<Rightarrow> b),
           loc_display_name := (case d of None \<Rightarrow> loc_display_name l | Some n \<Rightarrow> Some n)\<rparr>) db)"
proof -
  let ?l2 = "l\<lparr>loc_is_favorite := (case f of None \<Rightarrow> loc_is_favorite l | Some b \<Rightarrow> b),
             loc_display_name := (case d of None \<Rightarrow> loc_display_name l | Some n \<Rightarrow> Some n)\<rparr>"
  have i: "loc_id l = i" using get_location_in[OF assms] by simp
  have g: "get_location (commit_location ?l2 db) i = Some ?l2"
    using get_location_commit[OF assms, of ?l2] i by simp
  have r: "refresh (commit_location ?l2 db) ?l2 = ?l2"
    using g i by (simp add: refresh_def)
  have l2: "(case d of None \<Rightarrow> (case f of None \<Rightarrow> l | Some b \<Rightarrow> l\<lparr>loc_is_favorite := b\<rparr>)
             | Some n \<Rightarrow> (case f of None \<Rightarrow> l | Some b \<Rightarrow> l\<lparr>loc_is_favorite := b\<rparr>)
                 \<lparr>loc_display_name := Some n\<rparr>) = ?l2"
    by (cases f; cases d) simp_all
  have "update_location i f d db = (Inr (refresh (commit_location ?l2 db) ?l2), commit_location ?l2 db)"
    using assms by (simp add: update_location_def Let_def l2)
  then show ?thesis by (simp only: r)
qed
lemma update_ok:
  assumes "db_ok db"
  shows "db_ok (snd (update_location i f d db))"
proof (cases "get_location db i")
  case None
  then show ?thesis using assms by (simp add: update_location_def)
next
  case (Some l)
  show ?thesis unfolding update_success[OF Some] using assms by (simp add: commit_ok)
qed

lemma update_one_per_coordinates:
  assumes "db_ok db" "one_per_coordinates db"
  shows "one_per_coordinates (snd (update_location i f d db))"
proof (cases "get_location db i")
  case None
  then show ?thesis using assms by (simp add: update_location_def)
next
  case (Some l)
  show ?thesis
    unfolding update_success[OF Some] snd_conv
    by (rule commit_one_per_coordinates[OF assms Some]) simp_all
qed

lemma fold_delete_snapshot:
  "fold delete_snapshot sel db =
     db\<lparr>snapshots := filter (\<lambda>r. snap_id r \<notin> snap_id ` set sel) (snapshots db)\<rparr>"
proof (induction sel arbitrary: db)
  case Nil
  then show ?case by simp
next
  case (Cons s sel)
  have "fold delete_snapshot (s # sel) db = fold delete_snapshot sel (delete_snapshot s db)"
    by simp
  also have "\<dots> = (delete_snapshot s db)\<lparr>snapshots :=
      filter (\<lambda>r. snap_id r \<notin> snap_id ` set sel) (snapshots (delete_snapshot s db))\<rparr>"
    by (rule Cons)
  also have "\<dots> = db\<lparr>snapshots :=
      filter (\<lambda>r. snap_id r \<notin> snap_id ` set (s # sel)) (snapshots db)\<rparr>"
    by (simp add: delete_snapshot_def conj_commute)
  finally show ?case .
qed

lemma delete_owned_eq:
  assumes "distinct (map snap_id ss)"
  shows "filter (\<lambda>r. snap_id r \<notin> snap_id ` set (filter (\<lambda>s. snap_location_id s = i) ss)) ss
       = filter (\<lambda>s. snap_location_id s \<noteq> i) ss"
proof (rule filter_cong[OF refl])
  fix r assume r: "r \<in> set ss"
  have inj: "inj_on snap_id (set ss)" using assms by (simp add: distinct_map)
  show "(snap_id r \<notin> snap_id ` set (filter (\<lambda>s. snap_location_id s = i) ss))
      = (snap_location_id r \<noteq> i)"
  proof
    assume "snap_id r \<notin> snap_id ` set (filter (\<lambda>s. snap_location_id s = i) ss)"
    then show "snap_location_id r \<noteq> i" using r by auto
  next
    assume n: "snap_location_id r \<noteq> i"
    show "snap_id r \<notin> snap_id ` set (filter (\<lambda>s. snap_location_id s = i) ss)"
    proof
      assume "snap_id r \<in> snap_id ` set (filter (\<lambda>s. snap_location_id s = i) ss)"
      then obtain s where "s \<in> set ss" "snap_location_id s = i" "snap_id s = snap_id r" by auto
      then have "s = r" using inj r by (auto dest: inj_onD)
      then show False using n \<open>snap_location_id s = i\<close> by simp
    qed
  qed
qed

lemma delete_success:
  assumes "get_location db i = Some l"
  shows "delete_location i db =
     (Inr True,
      db\<lparr>locations := filter (\<lambda>r. loc_id r \<noteq> i) (locations db),
         snapshots := filter (\<lambda>r. snap_id r \<notin> snap_id ` set (filter (\<lambda>s. snap_location_id s = i) (snapshots db)))
          (snapshots db)\<rparr>)"
  using assms get_location_in[OF assms]
  by (simp add: delete_location_def Let_def fold_delete_snapshot delete_location_row_def)

lemma delete_ok:
  assumes "db_ok db"
  shows "db_ok (snd (delete_location i db))"
proof (cases "get_location db i")
  case None
  then show ?thesis using assms by (simp add: delete_location_def)
next
  case (Some l)
  have d: "distinct (map snap_id (snapshots db))" using assms by (simp add: db_ok_def)
  show ?thesis
    using assms
    by (auto simp: delete_success[OF Some] delete_owned_eq[OF d] db_ok_def distinct_map_filter
        list_all_iff)
qed

lemma delete_one_per_coordinates:
  assumes "one_per_coordinates db"
  shows "one_per_coordinates (snd (delete_location i db))"
proof (cases "get_location db i")
  case None
  then show ?thesis using assms by (simp add: delete_location_def)
next
  case (Some l)
  show ?thesis
    using assms by (simp add: delete_success[OF Some] one_per_coordinates_def distinct_map_filter)
qed

lemma get_location_new:
  assumes "new_location geo db = Some n"
  shows "get_location (db\<lparr>locations := locations db @ [n]\<rparr>) (loc_id n) = Some n"
proof -
  have "\<forall>x \<in> set (locations db). loc_id x \<noteq> loc_id n"
    using new_location_fresh[OF assms] by (auto simp: image_iff)
  then have "find (\<lambda>l. loc_id l = loc_id n) (locations db) = None"
    by (simp add: find_None_iff)
  then show ?thesis
    by (simp add: get_location_def find_append_fresh)
qed

lemma create_not_found:
  "get_coordinates p c = None \<Longrightarrow>
   create_location p c db = (Inl (HTTPException 404 ''City not found or API error''), db)"
  by (simp add: create_location_def)

lemma create_existing:
  "get_coordinates p c = Some geo \<Longrightarrow> first_at db (geo_lat geo) (geo_lon geo) = Some e \<Longrightarrow>
   create_location p c db = (Inr (Loaded e), db)"
  by (simp add: create_location_def)

lemma create_integrity_error:
  "get_coordinates p c = Some geo \<Longrightarrow> first_at db (geo_lat geo) (geo_lon geo) = None \<Longrightarrow>
   new_location geo db = None \<Longrightarrow> create_location p c db = (Inl IntegrityError, db)"
  by (simp add: create_location_def)

lemma create_new:
  assumes "get_coordinates p c = Some geo" "first_at db (geo_lat geo) (geo_lon geo) = None"
    "new_location geo db = Some n"
  shows "create_location p c db =
    (case sync_location_weather p (loc_id n) (db\<lparr>locations := locations db @ [n]\<rparr>) of
       (Inl e, db2) \<Rightarrow> (Inl e, db2)
     | (Inr x, db2) \<Rightarrow> (Inr Expired, db2))"
  using assms by (simp add: create_location_def Let_def)

lemma create_unsynced:
  assumes "get_coordinates p c = Some geo" "first_at db (geo_lat geo) (geo_lon geo) = None"
    "new_location geo db = Some n"
    "get_current_weather p (loc_lat n) (loc_lon n) = None"
  shows "create_location p c db =
    (Inl (HTTPException 503 ''Weather API unavailable''),
     db\<lparr>locations := locations db @ [n]\<rparr>)"
proof -
  have "sync_location_weather p (loc_id n) (db\<lparr>locations := locations db @ [n]\<rparr>)
      = (Inl (HTTPException 503 ''Weather API unavailable''), db\<lparr>locations := locations db @ [n]\<rparr>)"
    using get_location_new[OF assms(3)] assms(4)
    by (simp add: sync_location_weather_def)
  then show ?thesis
    unfolding create_new[OF assms(1,2,3)] by simp
qed

lemma create_null_weather:
  assumes "get_coordinates p c = Some geo" "first_at db (geo_lat geo) (geo_lon geo) = None"
    "new_location geo db = Some n"
    "get_current_weather p (loc_lat n) (loc_lon n) = Some w"
    "new_snapshot p (loc_id n) w db = None"
  shows "create_location p c db = (Inl IntegrityError, db\<lparr>locations := locations db @ [n]\<rparr>)"
proof -
  have "sync_location_weather p (loc_id n) (db\<lparr>locations := locations db @ [n]\<rparr>)
      = (Inl IntegrityError, db\<lparr>locations := locations db @ [n]\<rparr>)"
    by (rule sync_integrity_error[OF get_location_new[OF assms(3)] assms(4)])
      (simp add: assms(5))
  then show ?thesis
    unfolding create_new[OF assms(1,2,3)] by simp
qed

lemma create_synced:
  assumes "get_coordinates p c = Some geo" "first_at db (geo_lat geo) (geo_lon geo) = None"
    "new_location geo db = Some n"
    "get_current_weather p (loc_lat n) (loc_lon n) = Some w"
    "new_snapshot p (loc_id n) w db = Some s"
  shows "create_location p c db =
    (Inr Expired,
     commit_location (n\<lparr>loc_last_synced := Some (utcnow p 1)\<rparr>)
       (db\<lparr>locations := locations db @ [n], snapshots := snapshots db @ [s]\<rparr>))"
proof -
  let ?db1 = "db\<lparr>locations := locations db @ [n]\<rparr>"
  have s1: "new_snapshot p (loc_id n) w ?db1 = Some s" using assms(5) by simp
  have "sync_location_weather p (loc_id n) ?db1 =
      (Inr Expired, commit_location (n\<lparr>loc_last_synced := Some (utcnow p 1)\<rparr>)
         (?db1\<lparr>snapshots := snapshots ?db1 @ [s]\<rparr>))"
    by (rule sync_success[OF get_location_new[OF assms(3)] assms(4) s1])
  then show ?thesis
    unfolding create_new[OF assms(1,2,3)] by simp
qed

lemma first_at_None_iff:
  "first_at db lat lon = None \<longleftrightarrow>
     \<not> (\<exists>l \<in> set (locations db). Some (loc_lat l) = lat \<and> Some (loc_lon l) = lon)"
  by (auto simp: first_at_def find_None_iff)

lemma location_append_ok:
  assumes "db_ok db" "new_location geo db = Some n"
  shows "db_ok (db\<lparr>locations := locations db @ [n]\<rparr>)"
  using assms(1) new_location_fresh[OF assms(2)] by (auto simp: db_ok_def list_all_iff)

lemma create_ok:
  assumes "db_ok db"
  shows "db_ok (snd (create_location p c db))"
proof (cases "get_coordinates p c")
  case None
  then show ?thesis using assms by (simp add: create_not_found)
next
  case (Some geo)
  show ?thesis
  proof (cases "first_at db (geo_lat geo) (geo_lon geo)")
    case (Some e)
    then show ?thesis using assms \<open>get_coordinates p c = Some geo\<close> by (simp add: create_existing)
  next
    case None
    show ?thesis
    proof (cases "new_location geo db")
      case None
      then show ?thesis
        using assms create_integrity_error[OF Some \<open>first_at db (geo_lat geo) (geo_lon geo) = None\<close>]
        by simp
    next
      case (Some n)
      let ?db1 = "db\<lparr>locations := locations db @ [n]\<rparr>"
      have ok1: "db_ok ?db1" by (rule location_append_ok[OF assms Some])
      have "snd (create_location p c db) = snd (sync_location_weather p (loc_id n) ?db1)"
        unfolding create_new[OF \<open>get_coordinates p c = Some geo\<close>
            \<open>first_at db (geo_lat geo) (geo_lon geo) = None\<close> Some]
        by (simp split: prod.splits sum.splits)
      then show ?thesis using sync_ok[OF ok1] by simp
    qed
  qed
qed

lemma db_after_ok: "db_ok db \<Longrightarrow> db_ok (db_after p c db)"
  by (cases c) (simp_all add: create_ok update_ok delete_ok sync_ok)

lemma reachable_ok: "reachable db \<Longrightarrow> db_ok db"
proof (induction rule: reachable.induct)
  case (start db)
  then show ?case by (simp add: db_ok_def)
next
  case (after db p c)
  then show ?case by (simp add: db_after_ok)
qed

lemma create_one_per_coordinates:
  assumes "db_ok db" "one_per_coordinates db" "get_coordinates p c = Some geo"
    "kept_exactly db geo"
  shows "one_per_coordinates (snd (create_location p c db))"
proof (cases "first_at db (geo_lat geo) (geo_lon geo)")
  case (Some e)
  then show ?thesis using assms by (simp add: create_existing)
next
  case None
  obtain n where n: "new_location geo db = Some n"
      "Some (loc_lat n) = geo_lat geo" "Some (loc_lon n) = geo_lon geo"
    using assms(4) by (auto simp: kept_exactly_def split: option.splits)
  let ?db1 = "db\<lparr>locations := locations db @ [n]\<rparr>"
  have "(loc_lat n, loc_lon n) \<notin> set (map (\<lambda>l. (loc_lat l, loc_lon l)) (locations db))"
    using None n(2,3) by (auto simp: first_at_None_iff)
  then have one1: "one_per_coordinates ?db1"
    using assms(2) by (simp add: one_per_coordinates_def)
  have ok1: "db_ok ?db1" by (rule location_append_ok[OF assms(1) n(1)])
  have "snd (create_location p c db) = snd (sync_location_weather p (loc_id n) ?db1)"
    unfolding create_new[OF assms(3) None n(1)] by (simp split: prod.splits sum.splits)
  then show ?thesis using sync_one_per_coordinates[OF ok1 one1] by simp
qed

lemma empty_ok: "db_ok empty_db"
  by (simp add: db_ok_def empty_db_def)

lemma reachable_empty: "reachable empty_db"
  by (rule reachable.start) (simp_all add: empty_db_def)

lemma new_london: "new_location london empty_db = Some london_unsynced"
  by (simp add: new_location_def london_def empty_db_def london_unsynced_def)

lemma london_not_in_empty:
  "first_at empty_db (geo_lat london) (geo_lon london) = None"
  by (simp add: first_at_def empty_db_def)

lemma create_down: "create_location provider_down ''London'' empty_db =
   (Inl (HTTPException 503 ''Weather API unavailable''), db_unsynced)"
proof -
  have "create_location provider_down ''London'' empty_db =
    (Inl (HTTPException 503 ''Weather API unavailable''),
     empty_db\<lparr>locations := locations empty_db @ [london_unsynced]\<rparr>)"
    by (rule create_unsynced[OF _ london_not_in_empty new_london])
      (simp_all add: provider_down_def)
  then show ?thesis by (simp add: empty_db_def db_unsynced_def)
qed

lemma new_london_snapshot:
  "new_snapshot provider_up 1 clear_sky empty_db = Some london_snapshot"
  by (simp add: new_snapshot_def clear_sky_def empty_db_def london_snapshot_def provider_up_def)

lemma create_up: "create_location provider_up ''London'' empty_db = (Inr Expired, db_synced)"
proof -
  have i: "loc_id london_unsynced = 1" by (simp add: london_unsynced_def)
  have "create_location provider_up ''London'' empty_db =
    (Inr Expired,
     commit_location (london_unsynced\<lparr>loc_last_synced := Some (utcnow provider_up 1)\<rparr>)
       (empty_db\<lparr>locations := locations empty_db @ [london_unsynced],
           snapshots := snapshots empty_db @ [london_snapshot]\<rparr>))"
    by (rule create_synced[OF _ london_not_in_empty new_london, of _ _ clear_sky])
      (simp_all add: provider_up_def i new_london_snapshot[unfolded provider_up_def])
  then show ?thesis
    by (simp add: empty_db_def db_synced_def commit_location_def provider_up_def)
qed

lemma reachable_unsynced: "reachable db_unsynced"
  using reachable.after[OF reachable_empty, of provider_down "CreateLocation ''London''"]
  by (simp add: create_down)

lemma reachable_synced: "reachable db_synced"
  using reachable.after[OF reachable_empty, of provider_up "CreateLocation ''London''"]
  by (simp add: create_up)

section \<open>Sync-snapshot\<close>

text \<open>
  C3. Sync-snapshot on an existing location whose current-weather fetch returns absent
  fails with the 503 \<^verbatim>\<open>HTTPException\<close> and returns the database as it was: no snapshot row is
  added and \<open>last_synced\<close> of the location (as of every row) is unchanged.
\<close>

theorem sync_fails_atomically:
  assumes "get_location db i = Some l"
    and "get_current_weather p (loc_lat l) (loc_lon l) = None"
  shows "sync_location_weather p i db =
           (Inl (HTTPException 503 ''Weather API unavailable''), db)"
  using assms by (simp add: sync_location_weather_def)

theorem sync_fails_atomically_witness:
  "get_location db_synced 1 = Some (london_unsynced\<lparr>loc_last_synced := Some 1001\<rparr>) \<and>
   get_current_weather provider_down 51.5074 (-0.1278) = None \<and>
   sync_location_weather provider_down 1 db_synced =
     (Inl (HTTPException 503 ''Weather API unavailable''), db_synced)"
proof -
  have h1: "get_location db_synced 1 = Some (london_unsynced\<lparr>loc_last_synced := Some 1001\<rparr>)"
    by (simp add: get_location_def db_synced_def london_unsynced_def)
  have h2: "get_current_weather provider_down
      (loc_lat (london_unsynced\<lparr>loc_last_synced := Some 1001\<rparr>))
      (loc_lon (london_unsynced\<lparr>loc_last_synced := Some 1001\<rparr>)) = None"
    by (simp add: provider_down_def)
  show ?thesis
    using sync_fails_atomically[OF h1 h2] h1 h2 by (simp add: london_unsynced_def)
qed

section \<open>Add-location\<close>

text \<open>
  C2. When the city resolves to a record the store can keep (\<open>location\<close> is the row made
  of it), no location has its coordinates and the current-weather fetch for the new
  location returns absent, Add-location answers with the 503 \<^verbatim>\<open>HTTPException\<close> of the
  snapshot step, and the database it leaves is the old one with the new location row
  appended: the row is found under its key, its \<open>last_synced\<close> is absent, and no snapshot
  was written.
\<close>

theorem create_location_failed_sync_keeps_location:
  assumes "get_coordinates p city_name = Some geo"
    and "new_location geo db = Some location"
    and "\<not> (\<exists>l \<in> set (locations db).
              Some (loc_lat l) = geo_lat geo \<and> Some (loc_lon l) = geo_lon geo)"
    and "get_current_weather p (loc_lat location) (loc_lon location) = None"
  shows "create_location p city_name db =
           (Inl (HTTPException 503 ''Weather API unavailable''),
            db\<lparr>locations := locations db @ [location]\<rparr>) \<and>
         get_location (snd (create_location p city_name db)) (loc_id location) =
           Some location \<and>
         loc_last_synced location = None \<and>
         snapshots (snd (create_location p city_name db)) = snapshots db"
proof -
  have none: "first_at db (geo_lat geo) (geo_lon geo) = None"
    using assms(3) by (simp add: first_at_None_iff)
  have c: "create_location p city_name db =
           (Inl (HTTPException 503 ''Weather API unavailable''),
            db\<lparr>locations := locations db @ [location]\<rparr>)"
    by (rule create_unsynced[OF assms(1) none assms(2,4)])
  show ?thesis
    using c get_location_new[OF assms(2)] new_location_Some(7)[OF assms(2)] by simp
qed

theorem create_location_failed_sync_keeps_location_witness:
  "get_coordinates provider_down ''London'' = Some london \<and>
   new_location london empty_db = Some london_unsynced \<and>
   get_current_weather provider_down (loc_lat london_unsynced) (loc_lon london_unsynced) = None \<and>
   create_location provider_down ''London'' empty_db =
     (Inl (HTTPException 503 ''Weather API unavailable''), db_unsynced) \<and>
   get_location db_unsynced 1 = Some london_unsynced \<and>
   loc_last_synced london_unsynced = None"
proof -
  have h1: "get_coordinates provider_down ''London'' = Some london"
    by (simp add: provider_down_def)
  have h2: "\<not> (\<exists>l \<in> set (locations empty_db).
      Some (loc_lat l) = geo_lat london \<and> Some (loc_lon l) = geo_lon london)"
    by (simp add: empty_db_def)
  have h3: "get_current_weather provider_down (loc_lat london_unsynced) (loc_lon london_unsynced)
      = None"
    by (simp add: provider_down_def)
  have d: "empty_db\<lparr>locations := locations empty_db @ [london_unsynced]\<rparr> = db_unsynced"
    by (simp add: empty_db_def db_unsynced_def)
  have i: "loc_id london_unsynced = 1" by (simp add: london_unsynced_def)
  note t = create_location_failed_sync_keeps_location[OF h1 new_london h2 h3, unfolded d i]
  have c: "create_location provider_down ''London'' empty_db =
     (Inl (HTTPException 503 ''Weather API unavailable''), db_unsynced)"
    using t by blast
  have g: "get_location db_unsynced 1 = Some london_unsynced"
    using t unfolding c by simp
  show ?thesis
    using t c g h1 h3 new_london by blast
qed

section \<open>Search-cities\<close>

text \<open>
  C6. For every query of fewer than three characters (the empty one among them)
  Search-cities returns the empty list and leaves the network as it was: nothing is added
  to the record of requests sent.
\<close>

theorem search_cities_short_query:
  assumes "length q < 3"
  shows "search_cities q net = (Inr [], net)"
  using assms by (simp add: search_cities_def)

theorem search_cities_short_query_witness:
  "length ''Lo'' < 3 \<and> search_cities ''Lo'' offline = (Inr [], offline) \<and>
   sent (snd (search_cities ''Lo'' offline)) = []"
proof -
  have h: "length ''Lo'' < 3" by simp
  show ?thesis using search_cities_short_query[OF h, of offline] h by (simp add: offline_def)
qed

lemma search_cities_long_query:
  "3 \<le> length q \<Longrightarrow> sent (snd (search_cities q net)) = sent net @ [GeoDirect q 5]"
  by (auto simp: search_cities_def weather_api_search_cities_def http_get_def)

section \<open>Add-location on new coordinates\<close>

lemma find_unique:
  "distinct (map f xs) \<Longrightarrow> l \<in> set xs \<Longrightarrow> find (\<lambda>r. f r = f l) xs = Some l"
  by (induction xs) (auto simp: image_iff)

lemma filter_unique:
  "distinct (map f xs) \<Longrightarrow> l \<in> set xs \<Longrightarrow> filter (\<lambda>r. f r = f l) xs = [l]"
proof (induction xs)
  case Nil
  then show ?case by simp
next
  case (Cons x xs)
  show ?case
  proof (cases "x = l")
    case True
    then have "\<forall>r \<in> set xs. f r \<noteq> f l" using Cons.prems(1) by (auto simp: image_iff)
    then have "filter (\<lambda>r. f r = f l) xs = []" by (simp add: filter_empty_conv)
    then show ?thesis using True by simp
  next
    case False
    then have "l \<in> set xs" using Cons.prems(2) by simp
    moreover have "f x \<noteq> f l" using Cons.prems(1) \<open>l \<in> set xs\<close> by (auto simp: image_iff)
    ultimately show ?thesis using Cons by simp
  qed
qed

lemma unique_at:
  assumes "one_per_coordinates db" "l \<in> set (locations db)"
  shows "first_at db (Some (loc_lat l)) (Some (loc_lon l)) = Some l"
    and "filter (\<lambda>r. loc_lat r = loc_lat l \<and> loc_lon r = loc_lon l) (locations db) = [l]"
proof -
  have d: "distinct (map (\<lambda>l. (loc_lat l, loc_lon l)) (locations db))"
    using assms(1) by (simp add: one_per_coordinates_def)
  show "first_at db (Some (loc_lat l)) (Some (loc_lon l)) = Some l"
    using find_unique[OF d assms(2)] by (simp add: first_at_def)
  show "filter (\<lambda>r. loc_lat r = loc_lat l \<and> loc_lon r = loc_lon l) (locations db) = [l]"
    using filter_unique[OF d assms(2)] by simp
qed

text \<open>What a successful Add-location on new coordinates leaves in the database: the
  new row with \<open>last_synced\<close> set, and exactly one snapshot that refers to it.\<close>

lemma create_location_synced_state:
  assumes "reachable db"
    and "get_coordinates p city_name = Some geo"
    and "first_at db (geo_lat geo) (geo_lon geo) = None"
    and "new_location geo db = Some n"
    and "get_current_weather p (loc_lat n) (loc_lon n) = Some w"
    and "new_snapshot p (loc_id n) w db = Some s"
  shows "fst (create_location p city_name db) = Inr Expired"
    and "get_location (snd (create_location p city_name db)) (loc_id n) =
           Some (n\<lparr>loc_last_synced := Some (utcnow p 1)\<rparr>)"
    and "filter (\<lambda>r. snap_location_id r = loc_id n)
           (snapshots (snd (create_location p city_name db))) = [s]"
proof -
  let ?l = "n\<lparr>loc_last_synced := Some (utcnow p 1)\<rparr>"
  let ?db1 = "db\<lparr>locations := locations db @ [n], snapshots := snapshots db @ [s]\<rparr>"
  have c: "create_location p city_name db = (Inr Expired, commit_location ?l ?db1)"
    by (rule create_synced[OF assms(2,3,4,5,6)])
  have ok: "db_ok db" by (rule reachable_ok[OF assms(1)])
  have ref: "\<forall>r \<in> set (snapshots db). snap_location_id r \<in> set (map loc_id (locations db))"
    using ok by (simp add: db_ok_def list_all_iff)
  have "\<forall>r \<in> set (snapshots db). snap_location_id r \<noteq> loc_id n"
  proof
    fix r assume "r \<in> set (snapshots db)"
    then have "snap_location_id r \<in> set (map loc_id (locations db))" using ref by blast
    then show "snap_location_id r \<noteq> loc_id n" using new_location_fresh[OF assms(4)] by metis
  qed
  then have old: "filter (\<lambda>r. snap_location_id r = loc_id n) (snapshots db) = []"
    by (simp add: filter_empty_conv)
  have g1: "get_location ?db1 (loc_id n) = Some n"
    using get_location_new[OF assms(4)] by (simp add: get_location_def)
  have g: "get_location (commit_location ?l ?db1) (loc_id n) = Some ?l"
    using get_location_commit[OF g1, of ?l] by simp
  show "fst (create_location p city_name db) = Inr Expired" by (simp add: c)
  show "get_location (snd (create_location p city_name db)) (loc_id n) = Some ?l"
    using g by (simp add: c)
  show "filter (\<lambda>r. snap_location_id r = loc_id n)
           (snapshots (snd (create_location p city_name db))) = [s]"
    using old new_snapshot_Some(2)[OF assms(6)] by (simp add: c)
qed

text \<open>
  C10. The claim is that a successful Add-location which creates a location returns it
  with \<open>last_synced\<close> set, and that exactly one snapshot row then refers to it. In the
  scenario of the repository's test (an empty database, London resolved, clear sky
  fetched) the database is left as the claim says: the row of key 1 has \<open>last_synced\<close>
  set and exactly one snapshot refers to it. The caller does not see it: the handler
  returns the object that the sync's commit expired, without the refresh that
  \<^verbatim>\<open>update_location\<close> makes after its commit, so the answer carries no \<open>last_synced\<close>
  and no other field.
\<close>

theorem create_location_returns_expired:
  "create_location provider_up ''London'' empty_db = (Inr Expired, db_synced) \<and>
   get_location db_synced 1 = Some (london_unsynced\<lparr>loc_last_synced := Some 1001\<rparr>) \<and>
   filter (\<lambda>s. snap_location_id s = 1) (snapshots db_synced) = [london_snapshot]"
proof (intro conjI)
  show "create_location provider_up ''London'' empty_db = (Inr Expired, db_synced)"
    by (rule create_up)
  show "get_location db_synced 1 = Some (london_unsynced\<lparr>loc_last_synced := Some 1001\<rparr>)"
    by (simp add: get_location_def db_synced_def london_unsynced_def)
  show "filter (\<lambda>s. snap_location_id s = 1) (snapshots db_synced) = [london_snapshot]"
    by (simp add: db_synced_def london_snapshot_def)
qed


section \<open>Delete-location\<close>

text \<open>
  C7. Delete-location on an unknown id fails with the 404 \<^verbatim>\<open>HTTPException\<close> and returns the
  database as it was. On an existing id it answers \<^verbatim>\<open>{"ok": True}\<close>, the location rows of
  that id are gone and the others stay, no snapshot row refers to the id any more, and
  fetching the id of any snapshot that referred to it returns absent.
\<close>

theorem delete_location_cascade:
  "(get_location db i = None \<longrightarrow>
      delete_location i db = (Inl (HTTPException 404 ''Location not found''), db)) \<and>
   (\<forall>l. get_location db i = Some l \<longrightarrow>
      fst (delete_location i db) = Inr True \<and>
      locations (snd (delete_location i db)) = filter (\<lambda>r. loc_id r \<noteq> i) (locations db) \<and>
      get_location (snd (delete_location i db)) i = None \<and>
      (\<forall>s \<in> set (snapshots (snd (delete_location i db))). snap_location_id s \<noteq> i) \<and>
      (\<forall>s \<in> set (snapshots db). snap_location_id s = i \<longrightarrow>
         get_snapshot (snd (delete_location i db)) (snap_id s) = None))"
proof (intro conjI allI impI)
  assume "get_location db i = None"
  then show "delete_location i db = (Inl (HTTPException 404 ''Location not found''), db)"
    by (simp add: delete_location_def)
next
  fix l assume l: "get_location db i = Some l"
  note d = delete_success[OF l]
  show "fst (delete_location i db) = Inr True" by (simp add: d)
  show "locations (snd (delete_location i db)) = filter (\<lambda>r. loc_id r \<noteq> i) (locations db)"
    by (simp add: d)
  show "get_location (snd (delete_location i db)) i = None"
    by (simp add: d get_location_def find_None_iff)
  show "\<forall>s \<in> set (snapshots (snd (delete_location i db))). snap_location_id s \<noteq> i"
    by (auto simp: d)
  show "\<forall>s \<in> set (snapshots db). snap_location_id s = i \<longrightarrow>
         get_snapshot (snd (delete_location i db)) (snap_id s) = None"
    by (auto simp: d get_snapshot_def find_None_iff)
qed

theorem delete_location_cascade_witness:
  "get_location db_synced 2 = None \<and>
   delete_location 2 db_synced = (Inl (HTTPException 404 ''Location not found''), db_synced) \<and>
   get_location db_synced 1 = Some (london_unsynced\<lparr>loc_last_synced := Some 1001\<rparr>) \<and>
   london_snapshot \<in> set (snapshots db_synced) \<and> snap_location_id london_snapshot = 1 \<and>
   delete_location 1 db_synced = (Inr True, empty_db) \<and>
   get_snapshot (snd (delete_location 1 db_synced)) (snap_id london_snapshot) = None"
proof -
  have h1: "get_location db_synced 2 = None"
    by (simp add: get_location_def db_synced_def london_unsynced_def)
  have h2: "get_location db_synced 1 = Some (london_unsynced\<lparr>loc_last_synced := Some 1001\<rparr>)"
    by (simp add: get_location_def db_synced_def london_unsynced_def)
  have h3: "london_snapshot \<in> set (snapshots db_synced)" "snap_location_id london_snapshot = 1"
    by (simp_all add: db_synced_def london_snapshot_def)
  have e: "delete_location 1 db_synced = (Inr True, empty_db)"
    unfolding delete_success[OF h2]
    by (simp add: db_synced_def empty_db_def london_unsynced_def london_snapshot_def)
  show ?thesis
    using delete_location_cascade[of db_synced 2] delete_location_cascade[of db_synced 1]
      h1 h2 h3 e by auto
qed


section \<open>Update-location\<close>

lemma commit_is_list_update:
  assumes "distinct (map loc_id xs)" "k < length xs" "loc_id l' = loc_id (xs ! k)"
  shows "map (\<lambda>r. if loc_id r = loc_id l' then l' else r) xs = xs[k := l']"
proof (rule nth_equalityI)
  show "length (map (\<lambda>r. if loc_id r = loc_id l' then l' else r) xs) = length (xs[k := l'])"
    by simp
next
  fix j assume "j < length (map (\<lambda>r. if loc_id r = loc_id l' then l' else r) xs)"
  then have j: "j < length xs" by simp
  show "map (\<lambda>r. if loc_id r = loc_id l' then l' else r) xs ! j = xs[k := l'] ! j"
  proof (cases "j = k")
    case True
    then show ?thesis using assms(2,3) by simp
  next
    case False
    have "map loc_id xs ! j \<noteq> map loc_id xs ! k"
      using nth_eq_iff_index_eq[OF assms(1), of j k] assms(2) j False by simp
    then have "loc_id (xs ! j) \<noteq> loc_id l'" using assms(2,3) j by simp
    then show ?thesis using j False by simp
  qed
qed

text \<open>
  C9. From a reachable database, Update-location on an unknown id fails with the 404
  \<^verbatim>\<open>HTTPException\<close> and returns the database as it was. On an existing id it returns the
  location with \<open>is_favorite\<close> replaced only when a value is supplied and \<open>display_name\<close>
  replaced only when a value is supplied, equal to the old row in every other field;
  the location table is the old one with that single row replaced, and the snapshot
  table is unchanged.
\<close>

theorem update_location_frame:
  assumes "reachable db"
  shows "(get_location db i = None \<longrightarrow>
            update_location i f d db = (Inl (HTTPException 404 ''Location not found''), db)) \<and>
         (\<forall>l. get_location db i = Some l \<longrightarrow>
            (\<exists>l' k. update_location i f d db =
                      (Inr l', db\<lparr>locations := (locations db)[k := l']\<rparr>) \<and>
                    k < length (locations db) \<and> locations db ! k = l \<and>
                    loc_is_favorite l' = (case f of None \<Rightarrow> loc_is_favorite l | Some b \<Rightarrow> b) \<and>
                    loc_display_name l' = (case d of None \<Rightarrow> loc_display_name l | Some n \<Rightarrow> Some n) \<and>
                    l'\<lparr>loc_is_favorite := loc_is_favorite l,
                       loc_display_name := loc_display_name l\<rparr> = l))"
proof (intro conjI allI impI)
  assume "get_location db i = None"
  then show "update_location i f d db = (Inl (HTTPException 404 ''Location not found''), db)"
    by (simp add: update_location_def)
next
  fix l assume l: "get_location db i = Some l"
  let ?l' = "l\<lparr>loc_is_favorite := (case f of None \<Rightarrow> loc_is_favorite l | Some b \<Rightarrow> b),
             loc_display_name := (case d of None \<Rightarrow> loc_display_name l | Some n \<Rightarrow> Some n)\<rparr>"
  have d: "distinct (map loc_id (locations db))"
    using reachable_ok[OF assms] by (simp add: db_ok_def)
  have "l \<in> set (locations db)" using get_location_in[OF l] by simp
  then obtain k where k: "k < length (locations db)" "locations db ! k = l"
    by (auto simp: in_set_conv_nth)
  have "commit_location ?l' db = db\<lparr>locations := (locations db)[k := ?l']\<rparr>"
    using commit_is_list_update[OF d k(1), of ?l'] k(2) by (simp add: commit_location_def)
  then have "update_location i f d db = (Inr ?l', db\<lparr>locations := (locations db)[k := ?l']\<rparr>)"
    using update_success[OF l, of f d] by simp
  moreover have "?l'\<lparr>loc_is_favorite := loc_is_favorite l,
                     loc_display_name := loc_display_name l\<rparr> = l" by simp
  ultimately show "\<exists>l' k. update_location i f d db =
                      (Inr l', db\<lparr>locations := (locations db)[k := l']\<rparr>) \<and>
                    k < length (locations db) \<and> locations db ! k = l \<and>
                    loc_is_favorite l' = (case f of None \<Rightarrow> loc_is_favorite l | Some b \<Rightarrow> b) \<and>
                    loc_display_name l' = (case d of None \<Rightarrow> loc_display_name l | Some n \<Rightarrow> Some n) \<and>
                    l'\<lparr>loc_is_favorite := loc_is_favorite l,
                       loc_display_name := loc_display_name l\<rparr> = l"
    using k by (intro exI[of _ ?l'] exI[of _ k]) simp
qed

theorem update_location_frame_witness:
  "reachable db_unsynced \<and>
   get_location db_unsynced 7 = None \<and>
   update_location 7 (Some True) None db_unsynced =
     (Inl (HTTPException 404 ''Location not found''), db_unsynced) \<and>
   get_location db_unsynced 1 = Some london_unsynced \<and>
   update_location 1 (Some True) None db_unsynced =
     (Inr (london_unsynced\<lparr>loc_is_favorite := True\<rparr>),
      db_unsynced\<lparr>locations := [london_unsynced\<lparr>loc_is_favorite := True\<rparr>]\<rparr>)"
proof -
  have h0: "reachable db_unsynced" by (rule reachable_unsynced)
  have h1: "get_location db_unsynced 7 = None"
    by (simp add: get_location_def db_unsynced_def london_unsynced_def)
  have h2: "get_location db_unsynced 1 = Some london_unsynced"
    by (simp add: get_location_def db_unsynced_def london_unsynced_def)
  have a: "update_location 7 (Some True) None db_unsynced =
     (Inl (HTTPException 404 ''Location not found''), db_unsynced)"
    using update_location_frame[OF h0, of 7 "Some True" None] h1 by blast
  obtain l' k where u: "update_location 1 (Some True) None db_unsynced =
        (Inr l', db_unsynced\<lparr>locations := (locations db_unsynced)[k := l']\<rparr>)"
      "k < length (locations db_unsynced)"
      "loc_is_favorite l' = True"
      "l'\<lparr>loc_is_favorite := loc_is_favorite london_unsynced,
          loc_display_name := loc_display_name london_unsynced\<rparr> = london_unsynced"
      "loc_display_name l' = loc_display_name london_unsynced"
    using update_location_frame[OF h0, of 1 "Some True" None] h2 by auto
  have k0: "k = 0" using u(2) by (simp add: db_unsynced_def)
  have "l' = l'\<lparr>loc_is_favorite := loc_is_favorite london_unsynced,
          loc_display_name := loc_display_name london_unsynced\<rparr>\<lparr>loc_is_favorite := True\<rparr>"
    using u(3,5) by simp
  then have "l' = london_unsynced\<lparr>loc_is_favorite := True\<rparr>" using u(4) by simp
  then show ?thesis using h0 h1 h2 a u(1) k0 by (simp add: db_unsynced_def)
qed


section \<open>Snapshots are never updated\<close>

lemma sync_snapshots:
  "snapshots (snd (sync_location_weather p i db)) = snapshots db \<or>
   (\<exists>s. snapshots (snd (sync_location_weather p i db)) = snapshots db @ [s] \<and>
        snap_id s \<notin> set (map snap_id (snapshots db)))"
proof (cases "fst (sync_location_weather p i db) = Inr Expired")
  case False
  then show ?thesis by (simp add: sync_failure)
next
  case True
  then obtain l w s where r: "get_location db i = Some l"
      "get_current_weather p (loc_lat l) (loc_lon l) = Some w" "new_snapshot p i w db = Some s"
    by (auto simp: sync_location_weather_def split: option.splits)
  show ?thesis
    using new_snapshot_fresh[OF r(3)] unfolding sync_success[OF r] by simp
qed

lemma create_snapshots:
  "snapshots (snd (create_location p c db)) = snapshots db \<or>
   (\<exists>s. snapshots (snd (create_location p c db)) = snapshots db @ [s] \<and>
        snap_id s \<notin> set (map snap_id (snapshots db)))"
proof (cases "get_coordinates p c")
  case None
  then show ?thesis by (simp add: create_not_found)
next
  case (Some geo)
  show ?thesis
  proof (cases "first_at db (geo_lat geo) (geo_lon geo)")
    case (Some e)
    then show ?thesis using \<open>get_coordinates p c = Some geo\<close> by (simp add: create_existing)
  next
    case None
    show ?thesis
    proof (cases "new_location geo db")
      case None
      then show ?thesis
        using create_integrity_error[OF Some \<open>first_at db (geo_lat geo) (geo_lon geo) = None\<close>]
        by simp
    next
      case (Some n)
      let ?db1 = "db\<lparr>locations := locations db @ [n]\<rparr>"
      have "snd (create_location p c db) = snd (sync_location_weather p (loc_id n) ?db1)"
        unfolding create_new[OF \<open>get_coordinates p c = Some geo\<close>
            \<open>first_at db (geo_lat geo) (geo_lon geo) = None\<close> Some]
        by (simp split: prod.splits sum.splits)
      then show ?thesis using sync_snapshots[of p "loc_id n" ?db1] by simp
    qed
  qed
qed

lemma update_snapshots: "snapshots (snd (update_location i f d db)) = snapshots db"
proof (cases "get_location db i")
  case None
  then show ?thesis by (simp add: update_location_def)
next
  case (Some l)
  show ?thesis unfolding update_success[OF Some] by simp
qed

lemma delete_snapshots:
  assumes "distinct (map snap_id (snapshots db))"
  shows "snapshots (snd (delete_location i db)) =
           (if get_location db i = None then snapshots db
            else filter (\<lambda>s. snap_location_id s \<noteq> i) (snapshots db))"
proof (cases "get_location db i")
  case None
  then show ?thesis by (simp add: delete_location_def)
next
  case (Some l)
  have "snapshots (snd (delete_location i db)) =
      filter (\<lambda>r. snap_id r \<notin> snap_id ` set (filter (\<lambda>s. snap_location_id s = i) (snapshots db)))
        (snapshots db)"
    unfolding delete_success[OF Some] by simp
  also have "\<dots> = filter (\<lambda>s. snap_location_id s \<noteq> i) (snapshots db)"
    by (rule delete_owned_eq[OF assms])
  finally show ?thesis using Some by simp
qed

text \<open>
  C8. From a reachable database, whatever handler is called and whatever the provider
  answers, the snapshot table afterwards is the old table unchanged, or the old table
  with one row of a fresh key appended (by Sync-snapshot, called directly or by
  Add-location), or the old table without the rows of the location that an effective
  Delete-location removed. No row that stays is altered.
\<close>

theorem snapshots_never_updated:
  assumes "reachable db"
  shows "snapshots (db_after p c db) = snapshots db \<or>
         (\<exists>s. snapshots (db_after p c db) = snapshots db @ [s] \<and>
              snap_id s \<notin> set (map snap_id (snapshots db)) \<and>
              ((\<exists>i. c = SyncLocationWeather i) \<or> (\<exists>n. c = CreateLocation n))) \<or>
         (\<exists>i l. c = DeleteLocation i \<and> get_location db i = Some l \<and>
              snapshots (db_after p c db) =
                filter (\<lambda>s. snap_location_id s \<noteq> loc_id l) (snapshots db))"
proof (cases c)
  case (CreateLocation n)
  then show ?thesis using create_snapshots[of p n db] by auto
next
  case (SyncLocationWeather i)
  then show ?thesis using sync_snapshots[of p i db] by auto
next
  case (UpdateLocation i f d)
  then show ?thesis by (simp add: update_snapshots)
next
  case (DeleteLocation i)
  have d: "distinct (map snap_id (snapshots db))"
    using reachable_ok[OF assms] by (simp add: db_ok_def)
  show ?thesis
  proof (cases "get_location db i")
    case None
    then show ?thesis using DeleteLocation delete_snapshots[OF d, of i] by simp
  next
    case (Some l)
    then have "loc_id l = i" using get_location_in by blast
    then show ?thesis using DeleteLocation Some delete_snapshots[OF d, of i] by simp
  qed
qed simp_all

theorem snapshots_never_updated_witness:
  "reachable db_synced \<and>
   snapshots (db_after provider_up (UpdateLocation 1 (Some True) None) db_synced) = [london_snapshot] \<and>
   snapshots (db_after provider_up (DeleteLocation 1) db_synced) = [] \<and>
   (\<exists>s. snapshots (db_after provider_up (SyncLocationWeather 1) db_synced) = [london_snapshot, s] \<and>
        snap_id s \<noteq> snap_id london_snapshot)"
proof -
  have h: "reachable db_synced" by (rule reachable_synced)
  have g: "get_location db_synced 1 = Some (london_unsynced\<lparr>loc_last_synced := Some 1001\<rparr>)"
    by (simp add: get_location_def db_synced_def london_unsynced_def)
  have s: "snapshots db_synced = [london_snapshot]" by (simp add: db_synced_def)
  have u: "snapshots (db_after provider_up (UpdateLocation 1 (Some True) None) db_synced)
      = [london_snapshot]"
    using snapshots_never_updated[OF h, of provider_up "UpdateLocation 1 (Some True) None"]
    by (simp add: s)
  have e: "delete_location 1 db_synced = (Inr True, empty_db)"
    unfolding delete_success[OF g]
    by (simp add: db_synced_def empty_db_def london_unsynced_def london_snapshot_def)
  have dl: "snapshots (db_after provider_up (DeleteLocation 1) db_synced) = []"
    using snapshots_never_updated[OF h, of provider_up "DeleteLocation 1"]
    by (simp add: e empty_db_def)
  have w: "get_current_weather provider_up
      (loc_lat (london_unsynced\<lparr>loc_last_synced := Some 1001\<rparr>))
      (loc_lon (london_unsynced\<lparr>loc_last_synced := Some 1001\<rparr>)) = Some clear_sky"
    by (simp add: provider_up_def)
  have ns: "new_snapshot provider_up 1 clear_sky db_synced = Some (london_snapshot\<lparr>snap_id := 2\<rparr>)"
    by (simp add: new_snapshot_def clear_sky_def db_synced_def empty_db_def london_snapshot_def
        provider_up_def)
  have ne: "snapshots (db_after provider_up (SyncLocationWeather 1) db_synced) \<noteq> snapshots db_synced"
    by (simp add: sync_success[OF g w ns])
  have sy: "\<exists>s. snapshots (db_after provider_up (SyncLocationWeather 1) db_synced) = [london_snapshot, s] \<and>
        snap_id s \<noteq> snap_id london_snapshot"
    using snapshots_never_updated[OF h, of provider_up "SyncLocationWeather 1"] ne
    by (auto simp: s)
  show ?thesis using h u dl sy by blast
qed


section \<open>Add-location twice\<close>

lemma create_at_existing:
  assumes "one_per_coordinates db" "l \<in> set (locations db)" "get_coordinates p c = Some geo"
    "geo_lat geo = Some (loc_lat l)" "geo_lon geo = Some (loc_lon l)"
  shows "create_location p c db = (Inr (Loaded l), db)"
  using create_existing[OF assms(3), of db l] unique_at(1)[OF assms(1,2)] assms(4,5) by simp

text \<open>The handlers keep the database at one location for a pair of coordinates as long
  as every record an Add-location resolves is kept exactly.\<close>

lemma db_after_one_per_coordinates:
  assumes "db_ok db" "one_per_coordinates db"
    and "\<And>n geo. c = CreateLocation n \<Longrightarrow> get_coordinates p n = Some geo \<Longrightarrow> kept_exactly db geo"
  shows "one_per_coordinates (db_after p c db)"
proof (cases c)
  case (CreateLocation n)
  show ?thesis
  proof (cases "get_coordinates p n")
    case None
    then show ?thesis using CreateLocation assms(2) by (simp add: create_not_found)
  next
    case (Some geo)
    then show ?thesis
      using CreateLocation create_one_per_coordinates[OF assms(1,2) Some assms(3)[OF CreateLocation Some]]
      by simp
  qed
qed (simp_all add: assms(1,2) update_one_per_coordinates delete_one_per_coordinates
    sync_one_per_coordinates)

text \<open>What the first of the two calls does on coordinates that are new:
  it leaves a row \<open>l\<close> with these coordinates, and answers with the 503 when the fetch
  returns absent and with the \<^verbatim>\<open>IntegrityError\<close> when the fetched record has a null field.\<close>

lemma create_on_new_coordinates:
  assumes "get_coordinates p c = Some geo" "first_at db (geo_lat geo) (geo_lon geo) = None"
    "new_location geo db = Some n"
  shows "\<exists>l. l \<in> set (locations (snd (create_location p c db))) \<and>
           loc_id l = loc_id n \<and> loc_lat l = loc_lat n \<and> loc_lon l = loc_lon n \<and>
           (case get_current_weather p (loc_lat l) (loc_lon l) of
              None \<Rightarrow> fst (create_location p c db) =
                        Inl (HTTPException 503 ''Weather API unavailable'')
            | Some w \<Rightarrow> new_snapshot p (loc_id l) w db = None \<longrightarrow>
                        fst (create_location p c db) = Inl IntegrityError)"
proof (cases "get_current_weather p (loc_lat n) (loc_lon n)")
  case None
  show ?thesis
    unfolding create_unsynced[OF assms None]
    using None by (intro exI[of _ n]) simp
next
  case (Some w)
  show ?thesis
  proof (cases "new_snapshot p (loc_id n) w db")
    case None
    show ?thesis
      unfolding create_null_weather[OF assms Some None]
      using Some None by (intro exI[of _ n]) simp
  next
    case (Some s)
    let ?l = "n\<lparr>loc_last_synced := Some (utcnow p 1)\<rparr>"
    let ?db1 = "db\<lparr>locations := locations db @ [n], snapshots := snapshots db @ [s]\<rparr>"
    have g1: "get_location ?db1 (loc_id n) = Some n"
      using get_location_new[OF assms(3)] by (simp add: get_location_def)
    have "get_location (commit_location ?l ?db1) (loc_id n) = Some ?l"
      using get_location_commit[OF g1, of ?l] by simp
    then have "?l \<in> set (locations (commit_location ?l ?db1))"
      using get_location_in by blast
    then show ?thesis
      unfolding create_synced[OF assms \<open>get_current_weather p (loc_lat n) (loc_lon n) = Some w\<close> Some]
      using \<open>get_current_weather p (loc_lat n) (loc_lon n) = Some w\<close> Some
      by (intro exI[of _ ?l]) simp
  qed
qed

text \<open>
  C1, as the code has it. Two Add-location calls are made one after the other with
  city names that resolve to the same coordinates, on a reachable database that has
  at most one location for a pair of coordinates, and the first resolved record is
  kept exactly (no null field, coordinates that the REAL columns keep as they are).
  The second call returns the loaded location \<open>l\<close> at those coordinates and leaves the
  database as the first call left it (no new location, no new snapshot), and \<open>l\<close> is
  then the only location row with those coordinates. If the coordinates were present
  before, the first call returned the same \<open>l\<close>. If they were new, the first call made
  that row, and it failed with the 503 \<^verbatim>\<open>HTTPException\<close> when its current-weather fetch
  returned absent and with the \<^verbatim>\<open>IntegrityError\<close> when the fetched record had a null
  field. What the first call returns after a successful first sync is not part of this
  statement.
\<close>

theorem add_location_idempotent:
  assumes "reachable db" and "one_per_coordinates db"
    and "get_coordinates p1 c1 = Some g1" and "kept_exactly db g1"
    and "get_coordinates p2 c2 = Some g2"
    and "geo_lat g2 = geo_lat g1" and "geo_lon g2 = geo_lon g1"
  shows "\<exists>l. fst (create_location p2 c2 (snd (create_location p1 c1 db))) = Inr (Loaded l) \<and>
             snd (create_location p2 c2 (snd (create_location p1 c1 db))) =
               snd (create_location p1 c1 db) \<and>
             filter (\<lambda>r. Some (loc_lat r) = geo_lat g1 \<and> Some (loc_lon r) = geo_lon g1)
               (locations (snd (create_location p1 c1 db))) = [l] \<and>
             (fst (create_location p1 c1 db) = Inr (Loaded l) \<or>
              first_at db (geo_lat g1) (geo_lon g1) = None \<and>
              (case get_current_weather p1 (loc_lat l) (loc_lon l) of
                 None \<Rightarrow> fst (create_location p1 c1 db) =
                           Inl (HTTPException 503 ''Weather API unavailable'')
               | Some w \<Rightarrow> new_snapshot p1 (loc_id l) w db = None \<longrightarrow>
                           fst (create_location p1 c1 db) = Inl IntegrityError))"
proof -
  let ?r1 = "create_location p1 c1 db"
  have ok: "db_ok db" by (rule reachable_ok[OF assms(1)])
  have one1: "one_per_coordinates (snd ?r1)"
    by (rule create_one_per_coordinates[OF ok assms(2,3,4)])
  have "\<exists>l. l \<in> set (locations (snd ?r1)) \<and>
          Some (loc_lat l) = geo_lat g1 \<and> Some (loc_lon l) = geo_lon g1 \<and>
          (fst ?r1 = Inr (Loaded l) \<or>
           first_at db (geo_lat g1) (geo_lon g1) = None \<and>
           (case get_current_weather p1 (loc_lat l) (loc_lon l) of
              None \<Rightarrow> fst ?r1 = Inl (HTTPException 503 ''Weather API unavailable'')
            | Some w \<Rightarrow> new_snapshot p1 (loc_id l) w db = None \<longrightarrow>
                        fst ?r1 = Inl IntegrityError))"
  proof (cases "first_at db (geo_lat g1) (geo_lon g1)")
    case (Some e)
    have "e \<in> set (locations db) \<and> Some (loc_lat e) = geo_lat g1 \<and> Some (loc_lon e) = geo_lon g1"
      using find_in[of "\<lambda>l. Some (loc_lat l) = geo_lat g1 \<and> Some (loc_lon l) = geo_lon g1"
          "locations db" e] Some
      by (simp add: first_at_def)
    then show ?thesis using create_existing[OF assms(3) Some] by auto
  next
    case None
    obtain n where n: "new_location g1 db = Some n"
        "Some (loc_lat n) = geo_lat g1" "Some (loc_lon n) = geo_lon g1"
      using assms(4) by (auto simp: kept_exactly_def split: option.splits)
    obtain l where l: "l \<in> set (locations (snd ?r1))" "loc_id l = loc_id n"
        "loc_lat l = loc_lat n" "loc_lon l = loc_lon n"
        "case get_current_weather p1 (loc_lat l) (loc_lon l) of
              None \<Rightarrow> fst ?r1 = Inl (HTTPException 503 ''Weather API unavailable'')
            | Some w \<Rightarrow> new_snapshot p1 (loc_id l) w db = None \<longrightarrow>
                        fst ?r1 = Inl IntegrityError"
      using create_on_new_coordinates[OF assms(3) None n(1)] by blast
    show ?thesis
      using l n(2,3) None by (intro exI[of _ l]) simp
  qed
  then obtain l where l: "l \<in> set (locations (snd ?r1))"
      "Some (loc_lat l) = geo_lat g1" "Some (loc_lon l) = geo_lon g1"
      "fst ?r1 = Inr (Loaded l) \<or>
           first_at db (geo_lat g1) (geo_lon g1) = None \<and>
           (case get_current_weather p1 (loc_lat l) (loc_lon l) of
              None \<Rightarrow> fst ?r1 = Inl (HTTPException 503 ''Weather API unavailable'')
            | Some w \<Rightarrow> new_snapshot p1 (loc_id l) w db = None \<longrightarrow>
                        fst ?r1 = Inl IntegrityError)"
    by blast
  have second: "create_location p2 c2 (snd ?r1) = (Inr (Loaded l), snd ?r1)"
    by (rule create_at_existing[OF one1 l(1) assms(5)]) (simp_all add: assms(6,7) l(2,3)[symmetric])
  have eq: "(\<lambda>r. Some (loc_lat r) = geo_lat g1 \<and> Some (loc_lon r) = geo_lon g1)
      = (\<lambda>r. loc_lat r = loc_lat l \<and> loc_lon r = loc_lon l)"
    using l(2,3) by (metis option.inject)
  have one: "filter (\<lambda>r. Some (loc_lat r) = geo_lat g1 \<and> Some (loc_lon r) = geo_lon g1)
               (locations (snd ?r1)) = [l]"
    unfolding eq by (rule unique_at(2)[OF one1 l(1)])
  show ?thesis
    using second one l(4) by (intro exI[of _ l]) simp
qed

lemma kept_london: "kept_exactly empty_db london"
  by (simp add: kept_exactly_def new_london) (simp add: london_def london_unsynced_def)

theorem add_location_idempotent_witness:
  "reachable empty_db \<and> one_per_coordinates empty_db \<and> kept_exactly empty_db london \<and>
   get_coordinates provider_up ''London'' = Some london \<and>
   (\<exists>l. fst (create_location provider_up ''London'' db_synced) = Inr (Loaded l) \<and>
        snd (create_location provider_up ''London'' db_synced) = db_synced \<and>
        filter (\<lambda>r. Some (loc_lat r) = geo_lat london \<and> Some (loc_lon r) = geo_lon london)
          (locations db_synced) = [l])"
proof -
  have h1: "reachable empty_db" by (rule reachable_empty)
  have h2: "one_per_coordinates empty_db" by (simp add: one_per_coordinates_def empty_db_def)
  have h3: "get_coordinates provider_up ''London'' = Some london"
    by (simp add: provider_up_def)
  have s: "snd (create_location provider_up ''London'' empty_db) = db_synced"
    by (simp add: create_up)
  show ?thesis
    using add_location_idempotent[OF h1 h2 h3 kept_london h3 refl refl] h1 h2 h3 kept_london
    unfolding s by blast
qed

text \<open>
  C1, as stated, fails when the first call meets a provider whose weather service is
  down: both calls resolve \<^verbatim>\<open>London\<close> to the same coordinates, the first call answers
  with the 503 \<^verbatim>\<open>HTTPException\<close> and only the second returns a location.
\<close>

theorem add_location_first_call_fails:
  "get_coordinates provider_down ''London'' = Some london \<and>
   fst (create_location provider_down ''London'' empty_db) =
     Inl (HTTPException 503 ''Weather API unavailable'') \<and>
   fst (create_location provider_down ''London''
          (snd (create_location provider_down ''London'' empty_db))) =
     Inr (Loaded london_unsynced)"
proof -
  have h: "get_coordinates provider_down ''London'' = Some london"
    by (simp add: provider_down_def)
  have i: "london_unsynced \<in> set (locations db_unsynced)"
    by (simp add: db_unsynced_def empty_db_def)
  have o: "one_per_coordinates db_unsynced"
    by (simp add: one_per_coordinates_def db_unsynced_def empty_db_def)
  have "create_location provider_down ''London'' db_unsynced =
      (Inr (Loaded london_unsynced), db_unsynced)"
    by (rule create_at_existing[OF o i h]) (simp_all add: london_def london_unsynced_def)
  then show ?thesis using h by (simp add: create_down)
qed

text \<open>The lookup of Add-location misses a row whose coordinates the REAL columns did
  not keep: after an Add-location on new coordinates that are rounded when stored, the
  same coordinates are still not found, so the next Add-location for them inserts
  another row.\<close>

lemma lookup_misses_rounded_row:
  assumes "get_coordinates p c = Some geo" "first_at db (geo_lat geo) (geo_lon geo) = None"
    "new_location geo db = Some n" "\<not> kept_exactly db geo"
  shows "first_at (snd (create_location p c db)) (geo_lat geo) (geo_lon geo) = None"
proof -
  let ?db' = "snd (create_location p c db)"
  have fresh: "\<forall>x \<in> set (locations db). loc_id x \<noteq> loc_id n"
    using new_location_fresh[OF assms(3)] by (auto simp: image_iff)
  have miss: "\<not> (Some (loc_lat n) = geo_lat geo \<and> Some (loc_lon n) = geo_lon geo)"
    using assms(3,4) by (simp add: kept_exactly_def)
  have "snd (create_location p c db) = snd (sync_location_weather p (loc_id n)
      (db\<lparr>locations := locations db @ [n]\<rparr>))"
    unfolding create_new[OF assms(1,2,3)] by (simp split: prod.splits sum.splits)
  then have rows: "\<exists>l. locations ?db' = locations db @ [l] \<and> loc_lat l = loc_lat n \<and>
      loc_lon l = loc_lon n"
    using fresh get_location_new[OF assms(3)]
    by (auto simp: sync_location_weather_def Let_def commit_location_def
        split: option.splits cong: map_cong)
  then obtain l where l: "locations ?db' = locations db @ [l]" "loc_lat l = loc_lat n"
      "loc_lon l = loc_lon n"
    by blast
  show ?thesis
    using assms(2) miss l by (auto simp: first_at_None_iff)
qed


section \<open>The provider client\<close>

lemma then_try_Inr: "then_try r f = Inr y \<longleftrightarrow> (\<exists>v. r = Inr v \<and> f v = Inr y)"
  by (cases r) (simp_all add: then_try_def)

lemma then_try_simps [simp]: "then_try (Inr v) f = f v" "then_try (Inl e) f = Inl e"
  by (simp_all add: then_try_def)

lemma get_key_Inr: "get_key v k = Inr u \<longleftrightarrow> (\<exists>kvs. v = PDict kvs \<and> map_of kvs k = Some u)"
  by (cases v) (auto split: option.splits)

lemma append_each_all2:
  "append_each f xs = Inr ys \<Longrightarrow> list_all2 (\<lambda>x y. f x = Inr y) xs ys"
  by (induction xs arbitrary: ys) (auto split: sum.splits)

lemma append_each_none:
  assumes "append_each f xs = Inr ys" "\<forall>x \<in> set xs. \<forall>y. f x \<noteq> Inr y"
  shows "ys = []"
proof (cases xs)
  case Nil
  then show ?thesis using assms(1) by simp
next
  case (Cons x rest)
  then show ?thesis using assms by (auto split: sum.splits)
qed

lemma failed_json_of: "failed resp \<Longrightarrow> \<exists>e. json_of resp = Inl e"
  by (cases resp) (auto simp: failed_def)

lemma search_item_candidate:
  assumes "search_item item = Inr c"
  shows "candidate_of item c"
proof -
  obtain name country state lat lon where r:
      "get_key item ''name'' = Inr name" "get_key item ''country'' = Inr country"
      "dict_get item ''state'' (PStr []) = Inr state"
      "get_key item ''lat'' = Inr lat" "get_key item ''lon'' = Inr lon"
      "c = PDict [(''name'', name), (''country'', country), (''state'', state),
                  (''lat'', lat), (''lon'', lon)]"
    using assms by (auto simp: search_item_def then_try_Inr)
  obtain kvs where "item = PDict kvs" using r(1) by (auto simp: get_key_Inr)
  then have "state = (case get_key item ''state'' of Inl e \<Rightarrow> PStr [] | Inr s \<Rightarrow> s)"
    using r(3) by (auto split: option.splits)
  then show ?thesis
    using r by (simp add: candidate_of_def has_keys_def reads_def search_fields_def)
qed

lemma search_item_str: "search_item (PStr s) \<noteq> Inr c"
  by (simp add: search_item_def)

lemma search_try_result:
  assumes "search_cities_try resp = Inr cs"
  shows "search_result resp cs"
proof -
  obtain data items where d: "json_of resp = Inr data" "iterate data = Inr items"
      "append_each search_item items = Inr cs"
    using assms by (auto simp: search_cities_try_def then_try_Inr)
  show ?thesis
  proof (cases data)
    case (PList xs)
    then have "list_all2 (\<lambda>x y. search_item x = Inr y) xs cs"
      using d append_each_all2 by fastforce
    then have "list_all2 candidate_of xs cs"
      by (rule list_all2_mono) (rule search_item_candidate)
    then show ?thesis using d(1) PList by (simp add: search_result_def)
  next
    case (PDict kvs)
    then have "\<forall>x \<in> set items. \<forall>y. search_item x \<noteq> Inr y"
      using d(2) by (auto simp: search_item_str)
    then show ?thesis using append_each_none[OF d(3)] by (simp add: search_result_def)
  next
    case (PStr s)
    then have "\<forall>x \<in> set items. \<forall>y. search_item x \<noteq> Inr y"
      using d(2) by (auto simp: search_item_str)
    then show ?thesis using append_each_none[OF d(3)] by (simp add: search_result_def)
  qed (use d(2) in simp_all)
qed

lemma search_client:
  "\<exists>cs. except_Exception (search_cities_try resp) [] = Inr cs \<and> search_result resp cs \<and>
        (failed resp \<longrightarrow> cs = [])"
proof (cases "search_cities_try resp")
  case (Inl e)
  then show ?thesis by (simp add: except_Exception_def search_result_def)
next
  case (Inr cs)
  have "\<not> failed resp"
    using Inr failed_json_of[of resp] by (auto simp: search_cities_try_def then_try_Inr)
  then show ?thesis
    using Inr search_try_result[OF Inr] by (simp add: except_Exception_def)
qed

lemma coordinates_try_result:
  assumes "get_coordinates_try resp = Inr r"
  shows "coordinates_result resp r"
proof (cases r)
  case None
  then show ?thesis by (simp add: coordinates_result_def)
next
  case (Some d)
  then obtain data d0 lat lon name country where
      "json_of resp = Inr data" "get_first data = Inr d0"
      "get_key d0 ''lat'' = Inr lat" "get_key d0 ''lon'' = Inr lon"
      "get_key d0 ''name'' = Inr name" "get_key d0 ''country'' = Inr country"
      "d = PDict [(''lat'', lat), (''lon'', lon), (''name'', name), (''country'', country)]"
    using assms by (auto simp: get_coordinates_try_def then_try_Inr split: if_splits)
  then show ?thesis
    using Some
    by (simp add: coordinates_result_def has_keys_def reads_def coordinate_fields_def)
qed

lemma coordinates_client:
  "\<exists>r. except_Exception (get_coordinates_try resp) None = Inr r \<and> coordinates_result resp r \<and>
        (failed resp \<longrightarrow> r = None)"
proof (cases "get_coordinates_try resp")
  case (Inl e)
  then show ?thesis by (simp add: except_Exception_def coordinates_result_def)
next
  case (Inr r)
  have "\<not> failed resp"
    using Inr failed_json_of[of resp] by (auto simp: get_coordinates_try_def then_try_Inr)
  then show ?thesis
    using Inr coordinates_try_result[OF Inr] by (simp add: except_Exception_def)
qed

lemma weather_try_result:
  assumes "get_current_weather_try resp = Inr r"
  shows "weather_result resp r"
proof (cases r)
  case None
  then show ?thesis by (simp add: weather_result_def)
next
  case (Some d)
  then obtain data m ws w wi temp description icon humidity wind_speed feels_like where
      "json_of resp = Inr data" "get_key data ''main'' = Inr m"
      "get_key data ''weather'' = Inr ws" "get_first ws = Inr w" "get_key data ''wind'' = Inr wi"
      "get_key m ''temp'' = Inr temp" "get_key w ''description'' = Inr description"
      "get_key w ''icon'' = Inr icon" "get_key m ''humidity'' = Inr humidity"
      "get_key wi ''speed'' = Inr wind_speed" "get_key m ''feels_like'' = Inr feels_like"
      "d = PDict [(''temp'', temp), (''description'', description), (''icon'', icon),
                  (''humidity'', humidity), (''wind_speed'', wind_speed),
                  (''feels_like'', feels_like)]"
    using assms by (auto simp: get_current_weather_try_def then_try_Inr)
  then show ?thesis
    using Some
    by (simp add: weather_result_def has_keys_def reads_def weather_fields_def)
qed

lemma weather_client:
  "\<exists>r. except_Exception (get_current_weather_try resp) None = Inr r \<and> weather_result resp r \<and>
        (failed resp \<longrightarrow> r = None)"
proof (cases "get_current_weather_try resp")
  case (Inl e)
  then show ?thesis by (simp add: except_Exception_def weather_result_def)
next
  case (Inr r)
  have "\<not> failed resp"
    using Inr failed_json_of[of resp] by (auto simp: get_current_weather_try_def then_try_Inr)
  then show ?thesis
    using Inr weather_try_result[OF Inr] by (simp add: except_Exception_def)
qed

lemma forecast_item_entry:
  assumes "forecast_item in_range item = Inr f"
  shows "entry_of in_range item f"
proof -
  obtain m ws w dt temp description icon timestamp where
      "get_key item ''main'' = Inr m" "get_key item ''weather'' = Inr ws" "get_first ws = Inr w"
      "get_key item ''dt'' = Inr dt"
      "get_key m ''temp'' = Inr temp" "get_key w ''description'' = Inr description"
      "get_key w ''icon'' = Inr icon" "fromtimestamp in_range dt = Inr timestamp"
      "f = PDict [(''temp'', temp), (''description'', description), (''icon'', icon),
                  (''timestamp'', timestamp)]"
    using assms by (auto simp: forecast_item_def then_try_Inr)
  then show ?thesis
    by (simp add: entry_of_def has_keys_def reads_def forecast_fields_def)
qed

lemma forecast_item_str: "forecast_item in_range (PStr s) \<noteq> Inr c"
  by (simp add: forecast_item_def)

lemma forecast_try_result:
  assumes "get_forecast_try in_range resp = Inr fs"
  shows "forecast_result in_range resp fs"
proof -
  obtain data l items where d: "json_of resp = Inr data" "get_key data ''list'' = Inr l"
      "iterate l = Inr items" "append_each (forecast_item in_range) items = Inr fs"
    using assms by (auto simp: get_forecast_try_def then_try_Inr)
  show ?thesis
  proof (cases l)
    case (PList xs)
    then have "list_all2 (\<lambda>x y. forecast_item in_range x = Inr y) xs fs"
      using d append_each_all2 by fastforce
    then have "list_all2 (entry_of in_range) xs fs"
      by (rule list_all2_mono) (rule forecast_item_entry)
    then show ?thesis using d(1,2) PList by (simp add: forecast_result_def)
  next
    case (PDict kvs)
    then have "\<forall>x \<in> set items. \<forall>y. forecast_item in_range x \<noteq> Inr y"
      using d(3) by (auto simp: forecast_item_str)
    then show ?thesis using append_each_none[OF d(4)] by (simp add: forecast_result_def)
  next
    case (PStr s)
    then have "\<forall>x \<in> set items. \<forall>y. forecast_item in_range x \<noteq> Inr y"
      using d(3) by (auto simp: forecast_item_str)
    then show ?thesis using append_each_none[OF d(4)] by (simp add: forecast_result_def)
  qed (use d(3) in simp_all)
qed

lemma forecast_client:
  "\<exists>fs. except_Exception (get_forecast_try in_range resp) [] = Inr fs \<and>
        forecast_result in_range resp fs \<and> (failed resp \<longrightarrow> fs = [])"
proof (cases "get_forecast_try in_range resp")
  case (Inl e)
  then show ?thesis by (simp add: except_Exception_def forecast_result_def)
next
  case (Inr fs)
  have "\<not> failed resp"
    using Inr failed_json_of[of resp] by (auto simp: get_forecast_try_def then_try_Inr)
  then show ?thesis
    using Inr forecast_try_result[OF Inr] by (simp add: except_Exception_def)
qed

lemma json_of_array:
  "json_of resp = Inr (PList items) \<Longrightarrow> array_length resp = length items"
  by (cases resp) (auto split: if_splits option.splits)

lemma client_fst [simp]:
  "fst (weather_api_search_cities query net) =
     except_Exception (search_cities_try (next_response net (GeoDirect query 5))) []"
  "fst (weather_api_get_coordinates city_name net) =
     except_Exception (get_coordinates_try (next_response net (GeoDirect city_name 1))) None"
  "fst (weather_api_get_current_weather lat lon units net) =
     except_Exception (get_current_weather_try (next_response net (Weather lat lon units))) None"
  "fst (weather_api_get_forecast in_range lat lon units net) =
     except_Exception (get_forecast_try in_range (next_response net (Forecast lat lon units))) []"
  by (simp_all add: weather_api_search_cities_def weather_api_get_coordinates_def
      weather_api_get_current_weather_def weather_api_get_forecast_def http_get_def
      next_response_def)




text \<open>
  What the search of the client does give. For every query and every response it
  returns a list in which every candidate has the keys \<^verbatim>\<open>name\<close>, \<^verbatim>\<open>country\<close>, \<^verbatim>\<open>state\<close>,
  \<^verbatim>\<open>lat\<close>, \<^verbatim>\<open>lon\<close>, and which is no longer than the JSON array of the response. The one
  request it sent asks the provider for at most 5 elements.
\<close>

lemma search_cities_candidates:
  "\<exists>cs. fst (weather_api_search_cities query net) = Inr cs \<and>
        list_all (has_keys [''name'', ''country'', ''state'', ''lat'', ''lon'']) cs \<and>
        length cs \<le> array_length (next_response net (GeoDirect query 5)) \<and>
        sent (snd (weather_api_search_cities query net)) = sent net @ [GeoDirect query 5]"
proof -
  let ?resp = "next_response net (GeoDirect query 5)"
  obtain cs where cs: "except_Exception (search_cities_try ?resp) [] = Inr cs"
      "search_result ?resp cs"
    using search_client[of ?resp] by blast
  have "list_all (has_keys [''name'', ''country'', ''state'', ''lat'', ''lon'']) cs \<and>
        length cs \<le> array_length ?resp"
  proof (cases "cs = []")
    case True
    then show ?thesis by simp
  next
    case False
    then obtain items where i: "json_of ?resp = Inr (PList items)" "list_all2 candidate_of items cs"
      using cs(2) by (auto simp: search_result_def split: sum.splits py.splits)
    have "\<forall>c \<in> set cs. has_keys [''name'', ''country'', ''state'', ''lat'', ''lon''] c"
      using i(2) by (auto simp: list_all2_conv_all_nth in_set_conv_nth candidate_of_def)
    moreover have "length cs = array_length ?resp"
      using json_of_array[OF i(1)] list_all2_lengthD[OF i(2)] by simp
    ultimately show ?thesis by (simp add: list_all_iff)
  qed
  moreover have "sent (snd (weather_api_search_cities query net)) = sent net @ [GeoDirect query 5]"
    by (simp add: weather_api_search_cities_def http_get_def)
  ultimately show ?thesis using cs(1) by simp
qed

text \<open>
  C5. The claim is that the search returns at most 5 candidates for every query and
  every response, each with the keys \<^verbatim>\<open>name\<close>, \<^verbatim>\<open>country\<close>, \<^verbatim>\<open>state\<close>, \<^verbatim>\<open>lat\<close>, \<^verbatim>\<open>lon\<close>; the
  docstrings of \<^verbatim>\<open>weather_api.search_cities\<close> and of the handler say the same ("a list
  of up to 5 matching locations"). The code asks the provider for 5 and then appends
  one candidate for every element of the answer without cutting it: on a response whose
  array has six elements it returns six candidates.
\<close>

theorem search_cities_six_candidates:
  "fst (weather_api_search_cities ''Springfield'' six_answers) =
     Inr [springfield, springfield, springfield, springfield, springfield, springfield] \<and>
   \<not> length [springfield, springfield, springfield, springfield, springfield, springfield] \<le> 5"
  by (simp add: next_response_def six_answers_def springfield_def search_cities_try_def
      search_item_def is_success_def except_Exception_def)

end
